theory Spec2Isabelle
  imports Main "HOL-Library.AList" "HOL-Library.Char_ord" "HOL-Library.List_Lexorder"
begin

chapter \<open>The daily-standup report engine of the engineering-manager server\<close>

text \<open>
  A shallow embedding of the Jira side of the server: the issue classifier and the standup
  report builder of src/jira-handler.ts, the cache store of src/utils/cache.ts, the retry
  executor and the error handler of src/utils/errors.ts, the validation schemas of
  src/utils/validation.ts, and the tool handler \<open>handleJiraTool\<close> over them. Values that can
  throw are sums with the thrown value on the left; the store and the world outside the process
  are passed through every function that changes them; the one loop that need not end returns
  an option. The definitions come first, then example data, then the properties.
\<close>

section \<open>JavaScript values used by the handlers\<close>

text \<open>
  Strings are \<^typ>\<open>string\<close>; the texts the handlers compare against (status names, labels) are
  ASCII, and \<open>toLowerCase\<close> is modelled on the ASCII letters. A JavaScript \<open>number\<close> that can be
  \<open>NaN\<close> (the result of arithmetic on an unparsable date) is a \<open>number\<close>; every other number of
  the handlers is an integer, so it is an \<^typ>\<open>int\<close>.
\<close>

datatype number = NaN | Number int

definition toLowerCaseChar :: "char \<Rightarrow> char" where
  "toLowerCaseChar c =
     (let n = (of_char c :: nat) in if 65 \<le> n \<and> n \<le> 90 then char_of (n + 32) else c)"

definition toLowerCase :: "string \<Rightarrow> string" where
  "toLowerCase s = map toLowerCaseChar s"

fun startsWith :: "string \<Rightarrow> string \<Rightarrow> bool" where
  "startsWith s [] = True"
| "startsWith [] (c # cs) = False"
| "startsWith (x # xs) (c # cs) = (x = c \<and> startsWith xs cs)"

text \<open>\<open>s.includes(sub)\<close> on strings.\<close>

fun str_includes :: "string \<Rightarrow> string \<Rightarrow> bool" where
  "str_includes [] sub = (sub = [])"
| "str_includes (x # xs) sub = (startsWith (x # xs) sub \<or> str_includes xs sub)"

text \<open>\<open>v || d\<close> for an optional string: \<open>undefined\<close>, \<open>null\<close> and the empty string are falsy.\<close>

definition orElse :: "string option \<Rightarrow> string \<Rightarrow> string" where
  "orElse v d = (case v of None \<Rightarrow> d | Some s \<Rightarrow> if s = [] then d else s)"

text \<open>\<open>v || null\<close> for an optional string.\<close>

definition orNull :: "string option \<Rightarrow> string option" where
  "orNull v = (case v of None \<Rightarrow> None | Some s \<Rightarrow> if s = [] then None else Some s)"

text \<open>
  \<open>Array.prototype.sort(compareFn)\<close>: a stable sort (ECMAScript 2019); a comparator result that
  is \<open>NaN\<close> counts as 0, which the comparators below already return as an \<^typ>\<open>int\<close>. The model
  is the stable insertion sort; for a consistent comparator every stable sort gives this result.
\<close>

fun insertBy :: "('a \<Rightarrow> 'a \<Rightarrow> int) \<Rightarrow> 'a \<Rightarrow> 'a list \<Rightarrow> 'a list" where
  "insertBy cmp x [] = [x]"
| "insertBy cmp x (y # ys) = (if cmp x y \<le> 0 then x # y # ys else y # insertBy cmp x ys)"

definition sortBy :: "('a \<Rightarrow> 'a \<Rightarrow> int) \<Rightarrow> 'a list \<Rightarrow> 'a list" where
  "sortBy cmp xs = foldr (insertBy cmp) xs []"

section \<open>Errors (src/utils/errors.ts, src/utils/validation.ts, src/types/index.ts)\<close>

datatype ErrorCode =
    CONFIG_MISSING | CONFIG_INVALID
  | VALIDATION_FAILED | INVALID_INPUT
  | API_ERROR | API_TIMEOUT | API_RATE_LIMIT | API_UNAUTHORIZED | API_NOT_FOUND
  | JIRA_BOARD_NOT_FOUND | JIRA_SPRINT_NOT_FOUND | JIRA_ISSUE_NOT_FOUND
  | JIRA_PROJECT_NOT_FOUND | JIRA_PERMISSION_DENIED
  | SLACK_CHANNEL_NOT_FOUND | SLACK_USER_NOT_FOUND | SLACK_MESSAGE_TOO_LONG | SLACK_RATE_LIMITED
  | UNKNOWN_TOOL | INTERNAL_ERROR

text \<open>The subclasses of \<open>BaseError\<close> in errors.ts; \<open>JiraError\<close> and \<open>SlackError\<close> extend \<open>ApiError\<close>.\<close>

datatype ErrorClass = ConfigError | ValidationError | ApiError | JiraError | SlackError

text \<open>The body of an upstream error response, as \<open>fromAxiosError\<close> reads it.\<close>

record ResponseData =
  errorMessages :: "string list option"
  data_message :: "string option"
  data_error :: "string option"

record BaseError =
  errorClass :: ErrorClass
  message :: string
  code :: ErrorCode
  statusCode :: "int option"
  timestamp :: int
  endpoint :: "string option"
  http_method :: "string option"
  responseData :: "ResponseData option"
  validationErrors :: "(string \<times> string) list"

text \<open>What an upstream request rejects with before the response interceptor: an Axios error.\<close>

record AxiosError =
  response_status :: "int option"
  response_data :: "ResponseData option"
  config_url :: "string option"
  config_method :: "string option"

text \<open>
  Everything a \<open>throw\<close> of the handlers can carry: an instance of \<open>BaseError\<close>, a raw Axios
  error, a standard \<open>Error\<close> (name and message; the \<open>ValidationError\<close> of validation.ts and a
  \<open>TypeError\<close> are such), or a value that is no \<open>Error\<close> at all.
\<close>

datatype thrown =
    ThrownBase BaseError
  | ThrownAxios AxiosError
  | ThrownError string string
  | ThrownOther

section \<open>Data model (src/types/index.ts)\<close>

record Sprint =
  sprint_id :: int
  sprint_name :: string
  sprint_state :: string
  originBoardId :: int

record Assignee =
  displayName :: string
  emailAddress :: string
  accountId :: string

text \<open>
  A comment body is \<open>any\<close>: absent, a plain string, or a document in Atlassian Document Format,
  of which the handler reads \<open>content[0].content[0].text\<close>.
\<close>

datatype AdfNode = AdfNode (node_text: "string option") (node_content: "AdfNode list option")

datatype CommentBody = NoBody | PlainBody string | AdfBody AdfNode

record Comment =
  author_displayName :: "string option"
  comment_created :: "string option"
  body :: CommentBody

text \<open>\<open>JiraIssue\<close>: \<open>fields_x\<close> is \<open>issue.fields.x\<close>; an absent field is \<open>None\<close>.\<close>

record JiraIssue =
  issue_key :: string
  fields_summary :: "string option"
  fields_status_name :: "string option"
  fields_assignee :: "Assignee option"
  fields_updated :: "string option"
  fields_created :: "string option"
  fields_duedate :: "string option"
  fields_priority_name :: "string option"
  fields_labels :: "string list option"
  fields_project_key :: "string option"
  fields_comments :: "Comment list option"

record LastComment =
  author :: string
  created :: string
  comment_body :: string

record IssueData =
  key :: string
  summary :: string
  status :: string
  assignee :: string
  assigneeEmail :: "string option"
  updated :: string
  duedate :: "string option"
  priority :: string
  daysSinceUpdate :: number
  url :: string
  labels :: "string list"
  lastComment :: "LastComment option"

datatype category = stale | overdue | unassigned | blocked

record CategorizedIssue = IssueData +
  categories :: "category list"

record AssigneeReport =
  name :: string
  email :: "string option"
  issues :: "IssueData list"
  staleCount :: int
  overdueCount :: int

record SprintSummary =
  totalSprintIssues :: int
  completedIssues :: int
  inProgressIssues :: int
  todoIssues :: int
  projectFiltered :: bool
  summary_projectKey :: "string option"

text \<open>
  \<open>byAssignee\<close> is a JavaScript object used as a dictionary: an association list in insertion
  order, updated in place. (An object lists the keys that read as array indices before the
  others; the list keeps the order of insertion for them too. Nothing proved here depends on
  the order of the buckets.)
\<close>

record StandupReport =
  sprintName :: string
  sprintId :: int
  date :: string
  staleIssues :: "IssueData list"
  overdueIssues :: "IssueData list"
  unassignedIssues :: "IssueData list"
  blockedIssues :: "IssueData list"
  byAssignee :: "(string \<times> AssigneeReport) list"
  sprintSummary :: SprintSummary

text \<open>The arguments of \<open>jira_daily_standup_report\<close> after validation.\<close>

record StandupArgs =
  boardId :: int
  projectKey :: "string option"
  daysStale :: "int option"
  includeUnassigned :: "bool option"

text \<open>
  The platform: \<open>parseDate s\<close> is \<open>new Date(s).getTime()\<close> (\<open>None\<close> for an invalid date),
  \<open>isoDate t\<close> is \<open>new Date(t).toISOString().split('T')[0]\<close>, \<open>localeCompare\<close> is
  \<open>String.prototype.localeCompare\<close>, \<open>baseUrl\<close> is \<open>config.getJiraBaseUrl()\<close> and
  \<open>development\<close> says whether \<open>NODE_ENV\<close> is \<open>development\<close>.
\<close>

record Platform =
  parseDate :: "string \<Rightarrow> int option"
  isoDate :: "int \<Rightarrow> string"
  localeCompare :: "string \<Rightarrow> string \<Rightarrow> int"
  baseUrl :: string
  development :: bool

section \<open>Issue classifier (src/jira-handler.ts)\<close>

definition extractCommentText :: "CommentBody \<Rightarrow> string" where
  "extractCommentText commentBody =
     (case commentBody of
        NoBody \<Rightarrow> ''No text content''
      | PlainBody s \<Rightarrow> if s = [] then ''No text content'' else take 200 s
      | AdfBody doc \<Rightarrow>
          (case node_content doc of
             Some (para # _) \<Rightarrow>
               (case node_content para of
                  Some (leaf # _) \<Rightarrow>
                    (case node_text leaf of
                       Some t \<Rightarrow> if t = [] then ''No text content'' else take 200 t
                     | None \<Rightarrow> ''No text content'')
                | _ \<Rightarrow> ''No text content'')
           | _ \<Rightarrow> ''No text content''))"

datatype StatusCategory = completed | inProgress | todo

definition categorizeStatus :: "string \<Rightarrow> StatusCategory" where
  "categorizeStatus st =
     (let statusLower = toLowerCase st in
      if statusLower = ''done'' \<or> statusLower = ''closed'' \<or> statusLower = ''resolved''
      then completed
      else if str_includes statusLower ''progress'' \<or> str_includes statusLower ''review''
              \<or> str_includes statusLower ''testing''
      then inProgress
      else todo)"

text \<open>
  \<open>Math.floor((now - t) / 86400000)\<close>: both times are integers of milliseconds in the range of
  \<open>Date\<close>, where the floating-point quotient has the floor of the exact one.
\<close>

definition daysBetween :: "int \<Rightarrow> int \<Rightarrow> int" where
  "daysBetween now t = (now - t) div (1000 * 60 * 60 * 24)"

definition computeCategories ::
  "Platform \<Rightarrow> int \<Rightarrow> JiraIssue \<Rightarrow> string \<Rightarrow> number \<Rightarrow> int \<Rightarrow> category list" where
  "computeCategories pf now issue st days daysStale' =
     (if categorizeStatus st = completed then []
      else
        (if (case days of NaN \<Rightarrow> False | Number d \<Rightarrow> d > daysStale') then [stale] else []) @
        (if (case orNull (fields_duedate issue) of
               None \<Rightarrow> False
             | Some due \<Rightarrow> (case parseDate pf due of None \<Rightarrow> False | Some t \<Rightarrow> t < now))
         then [overdue] else []) @
        (if fields_assignee issue = None then [unassigned] else []) @
        (let labels' = (case fields_labels issue of None \<Rightarrow> [] | Some ls \<Rightarrow> ls) in
         if ''blocked'' \<in> set labels' \<or> ''impediment'' \<in> set labels'
            \<or> str_includes (toLowerCase st) ''blocked''
         then [blocked] else []))"

definition processIssue :: "Platform \<Rightarrow> int \<Rightarrow> JiraIssue \<Rightarrow> string \<Rightarrow> int \<Rightarrow> CategorizedIssue" where
  "processIssue pf now issue baseUrl' daysStale' =
     (let st = orElse (fields_status_name issue) ''Unknown'';
          updated' = orElse (fields_updated issue) (orElse (fields_created issue) '''');
          duedate' = orNull (fields_duedate issue);
          days = (if updated' = [] then Number 0
                  else (case parseDate pf updated' of
                          None \<Rightarrow> NaN
                        | Some t \<Rightarrow> Number (daysBetween now t)));
          lastComment' =
            (case fields_comments issue of
               None \<Rightarrow> None
             | Some comments \<Rightarrow>
                 if comments = [] then None
                 else (let comment = last comments in
                       Some \<lparr> author = orElse (author_displayName comment) ''Unknown'',
                              created = orElse (comment_created comment) '''',
                              comment_body = extractCommentText (body comment) \<rparr>))
      in \<lparr> key = issue_key issue,
           summary = orElse (fields_summary issue) ''No summary'',
           status = st,
           assignee = (case fields_assignee issue of
                         None \<Rightarrow> ''Unassigned''
                       | Some a \<Rightarrow> orElse (Some (displayName a)) ''Unassigned''),
           assigneeEmail = (case fields_assignee issue of
                              None \<Rightarrow> None
                            | Some a \<Rightarrow> orNull (Some (emailAddress a))),
           updated = updated',
           duedate = duedate',
           priority = orElse (fields_priority_name issue) ''None'',
           daysSinceUpdate = days,
           url = baseUrl' @ ''/browse/'' @ issue_key issue,
           labels = (case fields_labels issue of None \<Rightarrow> [] | Some ls \<Rightarrow> ls),
           lastComment = lastComment',
           categories = computeCategories pf now issue st days daysStale' \<rparr>)"

section \<open>Standup report builder (src/jira-handler.ts, case \<open>jira_daily_standup_report\<close>)\<close>

text \<open>
  \<open>report.byAssignee\<close> starts as the object literal \<open>{}\<close>, so a lookup of a key it does not own
  finds the properties of \<open>Object.prototype\<close>. They are truthy and have no \<open>issues\<close> array: for an
  assignee of such a name no bucket is created and \<open>issues.push\<close> throws a \<open>TypeError\<close>.
\<close>

definition objectPrototypeKeys :: "string list" where
  "objectPrototypeKeys =
     [''constructor'', ''__proto__'', ''hasOwnProperty'', ''isPrototypeOf'',
      ''propertyIsEnumerable'', ''toLocaleString'', ''toString'', ''valueOf'',
      ''__defineGetter__'', ''__defineSetter__'', ''__lookupGetter__'', ''__lookupSetter__'']"

text \<open>The project filter at the head of the callback: \<open>True\<close> when the issue is skipped.\<close>

definition filteredOut :: "StandupArgs \<Rightarrow> JiraIssue \<Rightarrow> bool" where
  "filteredOut args issue =
     (case orNull (projectKey args) of
        None \<Rightarrow> False
      | Some pk \<Rightarrow> fields_project_key issue \<noteq> Some pk)"

definition incTotal :: "StandupReport \<Rightarrow> StandupReport" where
  "incTotal report =
     report\<lparr> sprintSummary := (sprintSummary report)
       \<lparr> totalSprintIssues := totalSprintIssues (sprintSummary report) + 1 \<rparr> \<rparr>"

definition incCompleted :: "StandupReport \<Rightarrow> StandupReport" where
  "incCompleted report =
     report\<lparr> sprintSummary := (sprintSummary report)
       \<lparr> completedIssues := completedIssues (sprintSummary report) + 1 \<rparr> \<rparr>"

definition incInProgress :: "StandupReport \<Rightarrow> StandupReport" where
  "incInProgress report =
     report\<lparr> sprintSummary := (sprintSummary report)
       \<lparr> inProgressIssues := inProgressIssues (sprintSummary report) + 1 \<rparr> \<rparr>"

definition incTodo :: "StandupReport \<Rightarrow> StandupReport" where
  "incTodo report =
     report\<lparr> sprintSummary := (sprintSummary report)
       \<lparr> todoIssues := todoIssues (sprintSummary report) + 1 \<rparr> \<rparr>"

text \<open>"Add to appropriate categories".\<close>

definition pushCategories :: "category list \<Rightarrow> IssueData \<Rightarrow> StandupReport \<Rightarrow> StandupReport" where
  "pushCategories cats issueData report =
     report\<lparr> staleIssues :=
               (if stale \<in> set cats then staleIssues report @ [issueData]
                else staleIssues report),
             overdueIssues :=
               (if overdue \<in> set cats then overdueIssues report @ [issueData]
                else overdueIssues report),
             unassignedIssues :=
               (if unassigned \<in> set cats then unassignedIssues report @ [issueData]
                else unassignedIssues report),
             blockedIssues :=
               (if blocked \<in> set cats then blockedIssues report @ [issueData]
                else blockedIssues report) \<rparr>"

text \<open>"Group by assignee".\<close>

definition groupByAssignee ::
  "CategorizedIssue \<Rightarrow> IssueData \<Rightarrow> StandupReport \<Rightarrow> thrown + StandupReport" where
  "groupByAssignee processedIssue issueData report =
     (let assigneeKey = assignee processedIssue;
          cats = categories processedIssue
      in if assigneeKey \<in> set objectPrototypeKeys
         then Inl (ThrownError ''TypeError''
                     ''Cannot read properties of undefined (reading 'push')'')
         else
           (let bucket =
                  (case map_of (byAssignee report) assigneeKey of
                     None \<Rightarrow> \<lparr> name = assigneeKey, email = assigneeEmail processedIssue,
                                issues = [], staleCount = 0, overdueCount = 0 \<rparr>
                   | Some b \<Rightarrow> b);
                bucket' =
                  bucket\<lparr> issues := issues bucket @ [issueData],
                          staleCount :=
                            (if stale \<in> set cats then staleCount bucket + 1
                             else staleCount bucket),
                          overdueCount :=
                            (if overdue \<in> set cats then overdueCount bucket + 1
                             else overdueCount bucket) \<rparr>
            in Inr (report\<lparr> byAssignee :=
                              AList.update assigneeKey bucket' (byAssignee report) \<rparr>)))"

text \<open>The callback of \<open>issues.forEach\<close>, on the report built so far.\<close>

definition addIssue ::
  "Platform \<Rightarrow> int \<Rightarrow> StandupArgs \<Rightarrow> int \<Rightarrow> StandupReport \<Rightarrow> JiraIssue
     \<Rightarrow> thrown + StandupReport" where
  "addIssue pf now args daysStale' report issue =
     (if filteredOut args issue then Inr report
      else
        (let report1 = incTotal report;
             processedIssue = processIssue pf now issue (baseUrl pf) daysStale';
             statusCategory = categorizeStatus (status processedIssue)
         in if statusCategory = completed then Inr (incCompleted report1)
            else
              (let report2 = (if statusCategory = inProgress then incInProgress report1
                              else incTodo report1);
                   issueData = IssueData.truncate processedIssue
               in groupByAssignee processedIssue issueData
                    (pushCategories (categories processedIssue) issueData report2))))"

text \<open>\<open>forEach\<close> with a callback that can throw: the first throw ends the loop.\<close>

fun forEach :: "('s \<Rightarrow> 'a \<Rightarrow> thrown + 's) \<Rightarrow> 'a list \<Rightarrow> 's \<Rightarrow> thrown + 's" where
  "forEach f [] s = Inr s"
| "forEach f (x # xs) s = (case f s x of Inl e \<Rightarrow> Inl e | Inr s' \<Rightarrow> forEach f xs s')"

text \<open>\<open>(a, b) => b.daysSinceUpdate - a.daysSinceUpdate\<close>; a \<open>NaN\<close> difference sorts as 0.\<close>

definition compareStale :: "IssueData \<Rightarrow> IssueData \<Rightarrow> int" where
  "compareStale a b =
     (case (daysSinceUpdate b, daysSinceUpdate a) of
        (Number y, Number x) \<Rightarrow> y - x
      | _ \<Rightarrow> 0)"

text \<open>\<open>(a, b) => (a.duedate || '').localeCompare(b.duedate || '')\<close>.\<close>

definition compareDue :: "Platform \<Rightarrow> IssueData \<Rightarrow> IssueData \<Rightarrow> int" where
  "compareDue pf a b = localeCompare pf (orElse (duedate a) '''') (orElse (duedate b) '''')"

text \<open>\<open>validatedArgs.daysStale || 2\<close>.\<close>

definition effectiveDaysStale :: "StandupArgs \<Rightarrow> int" where
  "effectiveDaysStale args = (case daysStale args of None \<Rightarrow> 2 | Some d \<Rightarrow> if d = 0 then 2 else d)"

definition initialReport :: "Platform \<Rightarrow> int \<Rightarrow> StandupArgs \<Rightarrow> Sprint \<Rightarrow> StandupReport" where
  "initialReport pf now args activeSprint =
     \<lparr> sprintName = sprint_name activeSprint,
       sprintId = sprint_id activeSprint,
       date = isoDate pf now,
       staleIssues = [], overdueIssues = [], unassignedIssues = [], blockedIssues = [],
       byAssignee = [],
       sprintSummary =
         \<lparr> totalSprintIssues = 0, completedIssues = 0, inProgressIssues = 0, todoIssues = 0,
           projectFiltered = (orNull (projectKey args) \<noteq> None),
           summary_projectKey = orNull (projectKey args) \<rparr> \<rparr>"

definition sortReport :: "Platform \<Rightarrow> StandupReport \<Rightarrow> StandupReport" where
  "sortReport pf report =
     report\<lparr> staleIssues := sortBy compareStale (staleIssues report),
             overdueIssues := sortBy (compareDue pf) (overdueIssues report) \<rparr>"

text \<open>
  The report of a sprint and its issues: "Initialize report", "Process each issue", "Sort
  issues". One reading \<open>now\<close> of the clock stands for the \<open>new Date()\<close> calls of one build.
\<close>

definition buildStandupReport ::
  "Platform \<Rightarrow> int \<Rightarrow> StandupArgs \<Rightarrow> Sprint \<Rightarrow> JiraIssue list \<Rightarrow> thrown + StandupReport" where
  "buildStandupReport pf now args activeSprint issues' =
     (case forEach (addIssue pf now args (effectiveDaysStale args)) issues'
             (initialReport pf now args activeSprint) of
        Inl e \<Rightarrow> Inl e
      | Inr report \<Rightarrow> Inr (sortReport pf report))"


section \<open>Counting the issues of a sprint\<close>

text \<open>
  The status text that \<open>processIssue\<close> classifies, \<open>issue.fields?.status?.name || 'Unknown'\<close>,
  and the issues of a list that the project filter lets through.
\<close>

definition issueStatusCategory :: "JiraIssue \<Rightarrow> StatusCategory" where
  "issueStatusCategory issue = categorizeStatus (orElse (fields_status_name issue) ''Unknown'')"

definition keptIssues :: "StandupArgs \<Rightarrow> JiraIssue list \<Rightarrow> JiraIssue list" where
  "keptIssues args xs = filter (\<lambda>i. \<not> filteredOut args i) xs"

definition issuesOfCategory ::
  "StatusCategory \<Rightarrow> StandupArgs \<Rightarrow> JiraIssue list \<Rightarrow> JiraIssue list" where
  "issuesOfCategory c args xs = filter (\<lambda>i. issueStatusCategory i = c) (keptIssues args xs)"

section \<open>Orders of the sorted lists\<close>

text \<open>\<open>x >= y\<close> on numbers: false when either is \<open>NaN\<close>.\<close>

definition numberGe :: "number \<Rightarrow> number \<Rightarrow> bool" where
  "numberGe x y = (case (x, y) of (Number a, Number b) \<Rightarrow> a \<ge> b | _ \<Rightarrow> False)"

text \<open>The sort key of the overdue list, \<open>a.duedate || ''\<close>, and the due dates of a sprint.\<close>

definition dueKey :: "IssueData \<Rightarrow> string" where
  "dueKey d = orElse (duedate d) ''''"

definition dueDates :: "JiraIssue list \<Rightarrow> string list" where
  "dueDates xs =
     concat (map (\<lambda>i. case orNull (fields_duedate i) of None \<Rightarrow> [] | Some s \<Rightarrow> [s]) xs)"

text \<open>Every entry of a report: those of the four category lists and of the assignee buckets.\<close>

definition reportEntries :: "StandupReport \<Rightarrow> IssueData list" where
  "reportEntries r =
     staleIssues r @ overdueIssues r @ unassignedIssues r @ blockedIssues r
       @ concat (map (\<lambda>kb. issues (snd kb)) (byAssignee r))"

text \<open>
  The collation of the platform agrees with the order of the code units on the strings \<open>ds\<close>,
  as it does on ISO dates.
\<close>

definition collatesByCodeUnits :: "Platform \<Rightarrow> string list \<Rightarrow> bool" where
  "collatesByCodeUnits pf ds =
     (\<forall>a\<in>set ds. \<forall>b\<in>set ds. (localeCompare pf a b \<le> 0) = (a \<le> b))"

text \<open>
  \<open>localeCompare\<close> is a consistent comparator on the strings \<open>ds\<close>: of any two of them one
  collates no later than the other, and collating no later is transitive. A sort by a
  consistent comparator has a determined result up to the order of equal elements.
\<close>

definition consistentCollation :: "Platform \<Rightarrow> string list \<Rightarrow> bool" where
  "consistentCollation pf ds =
     ((\<forall>a\<in>set ds. \<forall>b\<in>set ds. localeCompare pf a b \<le> 0 \<or> localeCompare pf b a \<le> 0)
      \<and> (\<forall>a\<in>set ds. \<forall>b\<in>set ds. \<forall>c\<in>set ds.
            localeCompare pf a b \<le> 0 \<and> localeCompare pf b c \<le> 0
              \<longrightarrow> localeCompare pf a c \<le> 0))"

section \<open>Numbers in template strings\<close>

text \<open>
  \<open>`${n}`\<close> for an integer \<open>n\<close>: its decimal digits (the exponent notation that JavaScript
  switches to from \<open>1e21\<close> on is not modelled).
\<close>

definition digitChar :: "nat \<Rightarrow> char" where
  "digitChar d = char_of (48 + d)"

fun showNat :: "nat \<Rightarrow> string" where
  "showNat n = (if n < 10 then [digitChar n] else showNat (n div 10) @ [digitChar (n mod 10)])"

definition showInt :: "int \<Rightarrow> string" where
  "showInt i = (if i < 0 then ''-'' @ showNat (nat (- i)) else showNat (nat i))"

definition toUpperCaseChar :: "char \<Rightarrow> char" where
  "toUpperCaseChar c =
     (let n = (of_char c :: nat) in if 97 \<le> n \<and> n \<le> 122 then char_of (n - 32) else c)"

definition toUpperCase :: "string \<Rightarrow> string" where
  "toUpperCase s = map toUpperCaseChar s"

text \<open>\<open>xs.join(', ')\<close>.\<close>

fun joinComma :: "string list \<Rightarrow> string" where
  "joinComma [] = []"
| "joinComma [x] = x"
| "joinComma (x # y # ys) = x @ '', '' @ joinComma (y # ys)"

section \<open>Cache store (src/utils/cache.ts)\<close>

text \<open>
  What the handlers keep in \<open>sprintCache\<close>: sprints under \<open>CacheKeys.sprint\<close>, issue lists under
  \<open>CacheKeys.sprintIssues\<close> and reports under \<open>CacheKeys.standupReport\<close>.
\<close>

datatype CacheValue = CachedSprint Sprint | CachedIssues "JiraIssue list" | CachedReport StandupReport

record CacheEntry =
  data :: CacheValue
  expiry :: int
  entry_key :: string

text \<open>
  \<open>CacheManager\<close>: the \<open>Map\<close> is an association list in insertion order (the order of
  \<open>Map.prototype.entries\<close>); times are milliseconds. The sweep that \<open>setInterval\<close> runs every
  minute removes only entries that \<open>get\<close> treats as absent, and is left out.
\<close>

record CacheManager =
  entries :: "(string \<times> CacheEntry) list"
  defaultTTL :: int
  maxSize :: int
  prefix :: "string option"
  hitCount :: int
  missCount :: int

definition getFullKey :: "CacheManager \<Rightarrow> string \<Rightarrow> string" where
  "getFullKey c k = (case orNull (prefix c) of Some p \<Rightarrow> p @ '':'' @ k | None \<Rightarrow> k)"

text \<open>
  The loop of \<open>evictOldest\<close>: the first entry with the smallest expiry; \<open>None\<close> is the initial
  \<open>oldestKey = null\<close> with \<open>oldestExpiry = Infinity\<close>.
\<close>

fun oldestEntry ::
  "(string \<times> CacheEntry) list \<Rightarrow> (string \<times> int) option \<Rightarrow> (string \<times> int) option" where
  "oldestEntry [] acc = acc"
| "oldestEntry ((k, e) # rest) acc =
     oldestEntry rest
       (case acc of
          None \<Rightarrow> Some (k, expiry e)
        | Some (oldestKey, oldestExpiry) \<Rightarrow>
            if expiry e < oldestExpiry then Some (k, expiry e) else Some (oldestKey, oldestExpiry))"

definition evictOldest :: "CacheManager \<Rightarrow> CacheManager" where
  "evictOldest c =
     (case oldestEntry (entries c) None of
        None \<Rightarrow> c
      | Some (oldestKey, _) \<Rightarrow>
          if oldestKey = [] then c else c\<lparr> entries := AList.delete oldestKey (entries c) \<rparr>)"

text \<open>\<open>set(key, data, ttlSeconds)\<close> at time \<open>now\<close>.\<close>

definition cache_set ::
  "CacheManager \<Rightarrow> int \<Rightarrow> string \<Rightarrow> CacheValue \<Rightarrow> int option \<Rightarrow> CacheManager" where
  "cache_set c now k v ttlSeconds =
     (let ttl = (case ttlSeconds of None \<Rightarrow> defaultTTL c
                 | Some t \<Rightarrow> if t = 0 then defaultTTL c else t);
          fullKey = getFullKey c k;
          c1 = (if int (length (entries c)) \<ge> maxSize c \<and> map_of (entries c) fullKey = None
                then evictOldest c else c)
      in c1\<lparr> entries :=
               AList.update fullKey
                 \<lparr> data = v, expiry = now + ttl * 1000, entry_key = fullKey \<rparr> (entries c1) \<rparr>)"

text \<open>\<open>get(key)\<close> at time \<open>now\<close>: the value, or \<open>None\<close> for \<open>null\<close>, and the store after the read.\<close>

definition cache_get :: "CacheManager \<Rightarrow> int \<Rightarrow> string \<Rightarrow> CacheValue option \<times> CacheManager" where
  "cache_get c now k =
     (let fullKey = getFullKey c k in
      case map_of (entries c) fullKey of
        None \<Rightarrow> (None, c\<lparr> missCount := missCount c + 1 \<rparr>)
      | Some entry \<Rightarrow>
          if now > expiry entry
          then (None, c\<lparr> entries := AList.delete fullKey (entries c),
                          missCount := missCount c + 1 \<rparr>)
          else (Some (data entry), c\<lparr> hitCount := hitCount c + 1 \<rparr>))"

definition cache_delete :: "CacheManager \<Rightarrow> string \<Rightarrow> CacheManager" where
  "cache_delete c k = c\<lparr> entries := AList.delete (getFullKey c k) (entries c) \<rparr>"

text \<open>\<open>CacheFactory.getCache('sprint', { ttl: 600 })\<close>, as created.\<close>

definition sprintCache :: CacheManager where
  "sprintCache =
     \<lparr> entries = [], defaultTTL = 600, maxSize = 1000, prefix = Some ''sprint'',
       hitCount = 0, missCount = 0 \<rparr>"

text \<open>\<open>CacheKeys\<close>.\<close>

definition CacheKeys_sprint :: "int \<Rightarrow> string" where
  "CacheKeys_sprint boardId' = ''sprint:'' @ showInt boardId'"

definition CacheKeys_sprintIssues :: "int \<Rightarrow> string" where
  "CacheKeys_sprintIssues sprintId' = ''sprint-issues:'' @ showInt sprintId'"

definition CacheKeys_issue :: "string \<Rightarrow> string" where
  "CacheKeys_issue issueKey = ''issue:'' @ issueKey"

definition CacheKeys_standupReport :: "int \<Rightarrow> string option \<Rightarrow> string" where
  "CacheKeys_standupReport boardId' projectKey' =
     (case orNull projectKey' of
        Some pk \<Rightarrow> ''standup:'' @ showInt boardId' @ '':'' @ pk
      | None \<Rightarrow> ''standup:'' @ showInt boardId')"

section \<open>Retry executor (src/utils/errors.ts, \<open>RetryHelper\<close>)\<close>

text \<open>\<open>error instanceof ApiError\<close>.\<close>

definition instanceofApiError :: "thrown \<Rightarrow> bool" where
  "instanceofApiError e =
     (case e of
        ThrownBase b \<Rightarrow> errorClass b = ApiError \<or> errorClass b = JiraError
                          \<or> errorClass b = SlackError
      | _ \<Rightarrow> False)"

text \<open>The default \<open>shouldRetry\<close>.\<close>

definition defaultShouldRetry :: "thrown \<Rightarrow> int \<Rightarrow> bool" where
  "defaultShouldRetry e attempt =
     (case e of
        ThrownBase b \<Rightarrow>
          if instanceofApiError e
          then (let statusCode' = (case statusCode b of None \<Rightarrow> 0 | Some s \<Rightarrow> s)
                in statusCode' \<ge> 500 \<or> statusCode' = 429 \<or> code b = API_TIMEOUT)
          else False
      | _ \<Rightarrow> False)"

record RetryOptions =
  maxAttempts :: "int option"
  initialDelay :: "int option"
  maxDelay :: "int option"
  factor :: "int option"
  shouldRetry :: "(thrown \<Rightarrow> int \<Rightarrow> bool) option"

definition noOptions :: RetryOptions where
  "noOptions =
     \<lparr> maxAttempts = None, initialDelay = None, maxDelay = None, factor = None,
       shouldRetry = None \<rparr>"

text \<open>
  The \<open>for\<close> loop of \<open>retry\<close>. An operation is a step of the world \<open>'w\<close> that returns or throws;
  \<open>sleep d\<close> is the suspension \<open>setTimeout(resolve, d)\<close>. After the loop \<open>throw lastError\<close>
  throws \<open>undefined\<close> when no attempt was made.
\<close>

function retryLoop ::
  "(int \<Rightarrow> 'w \<Rightarrow> 'w) \<Rightarrow> ('w \<Rightarrow> (thrown + 'a) \<times> 'w) \<Rightarrow> int \<Rightarrow> int \<Rightarrow> int
     \<Rightarrow> (thrown \<Rightarrow> int \<Rightarrow> bool) \<Rightarrow> int \<Rightarrow> int \<Rightarrow> thrown option \<Rightarrow> 'w
     \<Rightarrow> (thrown + 'a) \<times> 'w" where
  "retryLoop sleep' operation maxAttempts' maxDelay' factor' shouldRetry' attempt delay
       lastError w =
     (if attempt \<le> maxAttempts' then
        (case operation w of
           (Inr v, w') \<Rightarrow> (Inr v, w')
         | (Inl e, w') \<Rightarrow>
             if attempt = maxAttempts' \<or> \<not> shouldRetry' e attempt then (Inl e, w')
             else retryLoop sleep' operation maxAttempts' maxDelay' factor' shouldRetry'
                    (attempt + 1) (min (delay * factor') maxDelay') (Some e) (sleep' delay w'))
      else (Inl (case lastError of None \<Rightarrow> ThrownOther | Some e \<Rightarrow> e), w))"
  by pat_completeness auto
termination
  by (relation "measure (\<lambda>(sl, operation, maxA, maxD, fac, sr, attempt, delay, lastError, w).
                           nat (maxA + 1 - attempt))") auto

text \<open>The options of \<open>retry\<close> with their defaults.\<close>

definition maxAttemptsOf :: "RetryOptions \<Rightarrow> int" where
  "maxAttemptsOf options = (case maxAttempts options of None \<Rightarrow> 3 | Some n \<Rightarrow> n)"

definition initialDelayOf :: "RetryOptions \<Rightarrow> int" where
  "initialDelayOf options = (case initialDelay options of None \<Rightarrow> 1000 | Some n \<Rightarrow> n)"

definition maxDelayOf :: "RetryOptions \<Rightarrow> int" where
  "maxDelayOf options = (case maxDelay options of None \<Rightarrow> 10000 | Some n \<Rightarrow> n)"

definition factorOf :: "RetryOptions \<Rightarrow> int" where
  "factorOf options = (case factor options of None \<Rightarrow> 2 | Some n \<Rightarrow> n)"

definition shouldRetryOf :: "RetryOptions \<Rightarrow> thrown \<Rightarrow> int \<Rightarrow> bool" where
  "shouldRetryOf options =
     (case shouldRetry options of None \<Rightarrow> defaultShouldRetry | Some f \<Rightarrow> f)"

definition retry ::
  "(int \<Rightarrow> 'w \<Rightarrow> 'w) \<Rightarrow> ('w \<Rightarrow> (thrown + 'a) \<times> 'w) \<Rightarrow> RetryOptions \<Rightarrow> 'w
     \<Rightarrow> (thrown + 'a) \<times> 'w" where
  "retry sleep' operation options w =
     retryLoop sleep' operation (maxAttemptsOf options) (maxDelayOf options) (factorOf options)
       (shouldRetryOf options) 1 (initialDelayOf options) None w"

text \<open>\<open>ApiError.fromAxiosError(error)\<close>, constructed at time \<open>now\<close>.\<close>

definition fromAxiosError :: "AxiosError \<Rightarrow> int \<Rightarrow> BaseError" where
  "fromAxiosError err now =
     (let statusCode' = response_status err;
          defaultMessage =
            (case response_data err of
               None \<Rightarrow> ''API request failed''
             | Some d \<Rightarrow>
                 (case errorMessages d of
                    Some (m # ms) \<Rightarrow> joinComma (m # ms)
                  | _ \<Rightarrow>
                      (case orNull (data_message d) of
                         Some m \<Rightarrow> m
                       | None \<Rightarrow>
                           (case orNull (data_error d) of
                              Some m \<Rightarrow> m
                            | None \<Rightarrow> ''API request failed''))));
          (code', message') =
            (if statusCode' = Some 401 then (API_UNAUTHORIZED, ''Authentication failed'')
             else if statusCode' = Some 404 then (API_NOT_FOUND, ''Resource not found'')
             else if statusCode' = Some 429 then (API_RATE_LIMIT, ''Rate limit exceeded'')
             else if statusCode' = Some 408 \<or> statusCode' = Some 504
             then (API_TIMEOUT, ''Request timed out'')
             else (API_ERROR, defaultMessage))
      in \<lparr> errorClass = ApiError, message = message', code = code', statusCode = statusCode',
           timestamp = now, endpoint = config_url err,
           http_method = map_option toUpperCase (config_method err),
           responseData = response_data err, validationErrors = [] \<rparr>)"

section \<open>Tool responses\<close>

datatype ErrorDetails =
    CodeDetails ErrorCode int "(string \<times> string) list option"
  | TextDetails string
  | NameAndStack string
  | RawError

text \<open>
  \<open>ErrorResponse\<close>. The details of a \<open>BaseError\<close> are its code, its timestamp and, for the
  \<open>ValidationError\<close> of errors.ts, its validation errors; the \<open>context\<close> that development mode
  adds is not modelled.
\<close>

record ErrorResponse =
  error :: string
  tool :: string
  error_status :: "int option"
  details :: "ErrorDetails option"

record SprintIssuesResult =
  result_sprintName :: string
  totalIssues :: int
  byStatus :: "(string \<times> int) list"
  byAssigneeCount :: "(string \<times> int) list"
  result_summary :: SprintSummary

record PdfResult =
  filePath :: string
  pdf_sprint :: string
  pdf_date :: string
  pdf_totalIssues :: int
  pdf_overdueCount :: int
  pdf_staleCount :: int

text \<open>
  The \<open>text\<close> of a response is a plain string or \<open>JSON.stringify\<close> of a value; the model keeps
  the value. A response has one content item of type \<open>text\<close>.
\<close>

datatype Payload =
    PlainText string
  | ReportJSON StandupReport
  | SprintJSON Sprint
  | IssuesJSON "JiraIssue list"
  | ErrorJSON ErrorResponse
  | SearchUnavailableJSON
  | SprintIssuesJSON SprintIssuesResult
  | PdfJSON PdfResult

record ToolResponse =
  content :: "Payload list"

definition textResponse :: "Payload \<Rightarrow> ToolResponse" where
  "textResponse p = \<lparr> content = [p] \<rparr>"

text \<open>\<open>JSON.stringify(cached)\<close> of whatever the store holds under a key.\<close>

definition payloadOfCached :: "CacheValue \<Rightarrow> Payload" where
  "payloadOfCached v =
     (case v of
        CachedReport r \<Rightarrow> ReportJSON r
      | CachedSprint s \<Rightarrow> SprintJSON s
      | CachedIssues xs \<Rightarrow> IssuesJSON xs)"

section \<open>Upstream collaborators\<close>

record SprintsResponse =
  values_field :: "Sprint list option"

record IssuesResponse =
  resp_issues :: "JiraIssue list option"
  resp_total :: "int option"

record CreateIssueBody =
  body_project :: string
  body_summary :: string
  body_description :: string
  body_issuetype :: string
  body_priority :: "string option"
  body_assignee :: "string option"

record UpdateFields =
  update_summary :: "string option"
  update_description :: bool
  update_priority :: "string option option"
  update_assignee :: "string option option"
  update_status :: "string option"

text \<open>
  The world outside the process, of any type \<open>'w\<close>: every request and every suspension is a step
  of it. \<open>clock\<close> is \<open>Date.now()\<close>, \<open>sleep d\<close> is a timer of \<open>d\<close> milliseconds, the requests are
  those of the two Axios clients before the response interceptor, and \<open>generateStandupPDF\<close> is
  the renderer of pdf-generator.ts, given the parsed report data.
\<close>

record 'w Upstream =
  clock :: "'w \<Rightarrow> int"
  sleep :: "int \<Rightarrow> 'w \<Rightarrow> 'w"
  getBoardSprints :: "int \<Rightarrow> 'w \<Rightarrow> (AxiosError + SprintsResponse) \<times> 'w"
  getSprintIssues :: "int \<Rightarrow> int \<Rightarrow> int \<Rightarrow> 'w \<Rightarrow> (AxiosError + IssuesResponse) \<times> 'w"
  postIssue :: "CreateIssueBody \<Rightarrow> 'w \<Rightarrow> (AxiosError + string option) \<times> 'w"
  putIssue :: "string \<Rightarrow> UpdateFields \<Rightarrow> 'w \<Rightarrow> (AxiosError + unit) \<times> 'w"
  generateStandupPDF :: "Payload \<Rightarrow> string option \<Rightarrow> 'w \<Rightarrow> (thrown + string) \<times> 'w"

text \<open>The response interceptor of both clients: \<open>error => { throw ApiError.fromAxiosError(error) }\<close>.\<close>

definition intercepted ::
  "'w Upstream \<Rightarrow> ('w \<Rightarrow> (AxiosError + 'a) \<times> 'w) \<Rightarrow> 'w \<Rightarrow> (thrown + 'a) \<times> 'w" where
  "intercepted up request w =
     (case request w of
        (Inl err, w') \<Rightarrow> (Inl (ThrownBase (fromAxiosError err (clock up w'))), w')
      | (Inr response, w') \<Rightarrow> (Inr response, w'))"

section \<open>Issue-tracker gateway (src/jira-handler.ts)\<close>

text \<open>
  The keys of the three kinds of value differ in their first letters, so a handler finds under
  its key a value of its own kind; a value of another kind there is outside the behaviour of the
  program, and the model makes its use a \<open>TypeError\<close>.
\<close>

definition wrongKind :: thrown where
  "wrongKind = ThrownError ''TypeError'' ''cached value of another kind''"

text \<open>
  The two requests of the gateway under \<open>RetryHelper.retry\<close>: the active sprints of a board,
  with \<open>{ maxAttempts: 3, initialDelay: 1000 }\<close>, and one page of the issues of a sprint, with
  \<open>{ maxAttempts: 3 }\<close>.
\<close>

definition fetchBoardSprints :: "'w Upstream \<Rightarrow> int \<Rightarrow> 'w \<Rightarrow> (thrown + SprintsResponse) \<times> 'w" where
  "fetchBoardSprints up boardId' w =
     retry (sleep up) (intercepted up (getBoardSprints up boardId'))
       (noOptions\<lparr> maxAttempts := Some 3, initialDelay := Some 1000 \<rparr>) w"

definition fetchIssuePage ::
  "'w Upstream \<Rightarrow> int \<Rightarrow> int \<Rightarrow> int \<Rightarrow> 'w \<Rightarrow> (thrown + IssuesResponse) \<times> 'w" where
  "fetchIssuePage up sprintId' startAt pageSize w =
     retry (sleep up) (intercepted up (getSprintIssues up sprintId' startAt pageSize))
       (noOptions\<lparr> maxAttempts := Some 3 \<rparr>) w"

text \<open>\<open>getActiveSprint(boardId)\<close>, on the store and the world.\<close>

definition getActiveSprint ::
  "'w Upstream \<Rightarrow> int \<Rightarrow> CacheManager \<Rightarrow> 'w \<Rightarrow> (thrown + Sprint option) \<times> CacheManager \<times> 'w" where
  "getActiveSprint up boardId' c w =
     (let cacheKey = CacheKeys_sprint boardId';
          (cached, c1) = cache_get c (clock up w) cacheKey
      in case cached of
           Some (CachedSprint s) \<Rightarrow> (Inr (Some s), c1, w)
         | Some _ \<Rightarrow> (Inl wrongKind, c1, w)
         | None \<Rightarrow>
             (case fetchBoardSprints up boardId' w of
                (Inl e, w') \<Rightarrow> (Inl e, c1, w')
              | (Inr response, w') \<Rightarrow>
                  (case values_field response of
                     Some (sprint # _) \<Rightarrow>
                       (Inr (Some sprint),
                        cache_set c1 (clock up w') cacheKey (CachedSprint sprint) (Some 600), w')
                   | _ \<Rightarrow> (Inr None, c1, w'))))"

text \<open>
  \<open>getSprintTicketsPaginated\<close> with the loop of \<open>getSprintTickets\<close> that consumes it: each
  \<open>yield\<close> is pushed onto \<open>allIssues\<close> before the generator goes on. The \<open>do ... while\<close> loop runs
  as long as the server reports a total beyond the offset, so it need not end: \<open>None\<close> is a run
  that never returns.
\<close>

partial_function (option) getSprintTicketsPaginated ::
  "'w Upstream \<Rightarrow> int \<Rightarrow> int \<Rightarrow> int \<Rightarrow> JiraIssue list \<Rightarrow> 'w
     \<Rightarrow> ((thrown + JiraIssue list) \<times> 'w) option" where
  "getSprintTicketsPaginated up sprintId' pageSize startAt allIssues w =
     (case fetchIssuePage up sprintId' startAt pageSize w of
        (Inl e, w') \<Rightarrow> Some (Inl e, w')
      | (Inr response, w') \<Rightarrow>
          (let allIssues' = allIssues @ (case resp_issues response of None \<Rightarrow> [] | Some b \<Rightarrow> b);
               startAt' = startAt + pageSize;
               total = (case resp_total response of None \<Rightarrow> 0 | Some t \<Rightarrow> t)
           in if startAt' < total
              then getSprintTicketsPaginated up sprintId' pageSize startAt' allIssues' w'
              else Some (Inr allIssues', w')))"

declare getSprintTicketsPaginated.simps [code]

text \<open>\<open>getSprintTickets(sprintId)\<close>.\<close>

definition getSprintTickets ::
  "'w Upstream \<Rightarrow> int \<Rightarrow> CacheManager \<Rightarrow> 'w
     \<Rightarrow> ((thrown + JiraIssue list) \<times> CacheManager \<times> 'w) option" where
  "getSprintTickets up sprintId' c w =
     (let cacheKey = CacheKeys_sprintIssues sprintId';
          (cached, c1) = cache_get c (clock up w) cacheKey
      in case cached of
           Some (CachedIssues xs) \<Rightarrow> Some (Inr xs, c1, w)
         | Some _ \<Rightarrow> Some (Inl wrongKind, c1, w)
         | None \<Rightarrow>
             (case getSprintTicketsPaginated up sprintId' 50 0 [] w of
                None \<Rightarrow> None
              | Some (Inl e, w') \<Rightarrow> Some (Inl e, c1, w')
              | Some (Inr allIssues, w') \<Rightarrow>
                  Some (Inr allIssues,
                        cache_set c1 (clock up w') cacheKey (CachedIssues allIssues) (Some 300),
                        w')))"

section \<open>Error handler (src/utils/errors.ts, \<open>ErrorHandler\<close>)\<close>

text \<open>\<open>BaseError.toResponse(tool)\<close>, with the override of \<open>ValidationError\<close>.\<close>

definition toResponse :: "BaseError \<Rightarrow> string \<Rightarrow> ErrorResponse" where
  "toResponse b tool' =
     \<lparr> error = message b,
       tool = (if tool' = [] then ''unknown'' else tool'),
       error_status = statusCode b,
       details = Some (CodeDetails (code b) (timestamp b)
                   (if errorClass b = ValidationError then Some (validationErrors b) else None)) \<rparr>"

text \<open>\<open>ErrorHandler.handle(error, tool)\<close> at time \<open>now\<close>.\<close>

definition handle :: "Platform \<Rightarrow> int \<Rightarrow> thrown \<Rightarrow> string \<Rightarrow> ErrorResponse" where
  "handle pf now err tool' =
     (case err of
        ThrownBase b \<Rightarrow> toResponse b tool'
      | ThrownAxios a \<Rightarrow> toResponse (fromAxiosError a now) tool'
      | ThrownError nm msg \<Rightarrow>
          \<lparr> error = msg, tool = tool', error_status = Some 500,
            details = (if development pf then Some (NameAndStack nm)
                       else Some (TextDetails ''An unexpected error occurred'')) \<rparr>
      | ThrownOther \<Rightarrow>
          \<lparr> error = ''An unknown error occurred'', tool = tool', error_status = Some 500,
            details = (if development pf then Some RawError else None) \<rparr>)"

text \<open>\<open>JiraError.sprintNotFound(boardId)\<close> and the error of the \<open>default\<close> case.\<close>

definition sprintNotFound :: "int \<Rightarrow> int \<Rightarrow> BaseError" where
  "sprintNotFound boardId' now =
     \<lparr> errorClass = JiraError,
       message = ''No active sprint found for board '' @ showInt boardId',
       code = JIRA_SPRINT_NOT_FOUND, statusCode = Some 404, timestamp = now,
       endpoint = None, http_method = None, responseData = None, validationErrors = [] \<rparr>"

definition unknownTool :: "string \<Rightarrow> int \<Rightarrow> BaseError" where
  "unknownTool name' now =
     \<lparr> errorClass = ApiError, message = ''Unknown Jira tool: '' @ name',
       code = UNKNOWN_TOOL, statusCode = Some 400, timestamp = now,
       endpoint = None, http_method = None, responseData = None, validationErrors = [] \<rparr>"

definition reportDataFailed :: "int \<Rightarrow> BaseError" where
  "reportDataFailed now =
     \<lparr> errorClass = ApiError, message = ''Failed to generate report data'',
       code = INTERNAL_ERROR, statusCode = Some 500, timestamp = now,
       endpoint = None, http_method = None, responseData = None, validationErrors = [] \<rparr>"

section \<open>A server that holds the issues of a sprint\<close>

text \<open>
  \<open>servesIssues up sid xs\<close>: every page request for the sprint answers with its slice of \<open>xs\<close>
  and with the length of \<open>xs\<close> as the total. \<open>pageOffsets n\<close> are the offsets of the pages of
  \<open>n\<close> issues, and \<open>fetchedPages\<close> is the world after one request at each offset of a list.
\<close>

definition servesIssues :: "'w Upstream \<Rightarrow> int \<Rightarrow> JiraIssue list \<Rightarrow> bool" where
  "servesIssues up sid xs =
     (\<forall>startAt pageSize w.
        fst (getSprintIssues up sid startAt pageSize w) =
          Inr \<lparr> resp_issues = Some (take (nat pageSize) (drop (nat startAt) xs)),
                resp_total = Some (int (length xs)) \<rparr>)"

definition pageOffsets :: "nat \<Rightarrow> int list" where
  "pageOffsets n = map (\<lambda>k. 50 * int k) [0..<max 1 ((n + 49) div 50)]"

definition fetchedPages :: "'w Upstream \<Rightarrow> int \<Rightarrow> int list \<Rightarrow> 'w \<Rightarrow> 'w" where
  "fetchedPages up sid offsets w =
     foldl (\<lambda>w' startAt. snd (getSprintIssues up sid startAt 50 w')) w offsets"

section \<open>Tool arguments and their validation (src/utils/validation.ts)\<close>

text \<open>
  The arguments of a tool call are \<open>any\<close>: a JSON value. Every number that a schema of this
  server accepts is an integer, so a number is \<open>JNumber n\<close> for an integer \<open>n\<close>, or
  \<open>JNonInteger\<close> for any other number.
\<close>

datatype json =
    JNull | JBool bool | JNumber int | JNonInteger | JString string
  | JArray "json list" | JObject "(string \<times> json) list"

text \<open>
  \<open>validate(schema, data)\<close> throws the \<open>ValidationError\<close> of validation.ts, which extends
  \<open>Error\<close> and not \<open>BaseError\<close>.
\<close>

definition validationFailed :: thrown where
  "validationFailed = ThrownError ''ValidationError'' ''Input validation failed''"

text \<open>\<open>.strict()\<close>: no key outside the schema.\<close>

definition strictKeys :: "string list \<Rightarrow> (string \<times> json) list \<Rightarrow> bool" where
  "strictKeys allowed kvs = list_all (\<lambda>kv. fst kv \<in> set allowed) kvs"

definition isUpper :: "char \<Rightarrow> bool" where
  "isUpper c = (let n = (of_char c :: nat) in 65 \<le> n \<and> n \<le> 90)"

definition isDigit :: "char \<Rightarrow> bool" where
  "isDigit c = (let n = (of_char c :: nat) in 48 \<le> n \<and> n \<le> 57)"

text \<open>\<open>\w\<close>, \<open>-\<close>, \<open>/\<close> or \<open>.\<close>.\<close>

definition isPathChar :: "char \<Rightarrow> bool" where
  "isPathChar c =
     (let n = (of_char c :: nat)
      in (65 \<le> n \<and> n \<le> 90) \<or> (97 \<le> n \<and> n \<le> 122) \<or> (48 \<le> n \<and> n \<le> 57)
         \<or> n = 95 \<or> n = 45 \<or> n = 47 \<or> n = 46)"

text \<open>\<open>/^[A-Z]{2,10}$/\<close>.\<close>

definition isProjectKey :: "string \<Rightarrow> bool" where
  "isProjectKey s = (2 \<le> length s \<and> length s \<le> 10 \<and> list_all isUpper s)"

text \<open>\<open>/^[A-Z]{2,10}-\d+$/\<close>.\<close>

definition isIssueKey :: "string \<Rightarrow> bool" where
  "isIssueKey s =
     (let project = takeWhile isUpper s; rest = dropWhile isUpper s
      in 2 \<le> length project \<and> length project \<le> 10
         \<and> (case rest of
               [] \<Rightarrow> False
             | c # ds \<Rightarrow> c = CHR ''-'' \<and> ds \<noteq> [] \<and> list_all isDigit ds))"

text \<open>\<open>/^[\w\-\/\.]+\.pdf$/\<close>.\<close>

definition isPdfPath :: "string \<Rightarrow> bool" where
  "isPdfPath s =
     (length s \<ge> 5 \<and> list_all isPathChar s \<and> drop (length s - 4) s = ''.pdf'')"

text \<open>The parsers of the fields: \<open>None\<close> is a validation issue.\<close>

definition positiveInt :: "json option \<Rightarrow> int option" where
  "positiveInt v = (case v of Some (JNumber n) \<Rightarrow> if n > 0 then Some n else None | _ \<Rightarrow> None)"

definition optionalProjectKey :: "json option \<Rightarrow> string option option" where
  "optionalProjectKey v =
     (case v of
        None \<Rightarrow> Some None
      | Some (JString s) \<Rightarrow> if isProjectKey s then Some (Some s) else None
      | _ \<Rightarrow> None)"

definition optionalIntBetween :: "int \<Rightarrow> int \<Rightarrow> json option \<Rightarrow> int option option" where
  "optionalIntBetween lo hi v =
     (case v of
        None \<Rightarrow> Some None
      | Some (JNumber n) \<Rightarrow> if lo \<le> n \<and> n \<le> hi then Some (Some n) else None
      | _ \<Rightarrow> None)"

definition optionalBool :: "json option \<Rightarrow> bool option option" where
  "optionalBool v =
     (case v of None \<Rightarrow> Some None | Some (JBool b) \<Rightarrow> Some (Some b) | _ \<Rightarrow> None)"

definition optionalPdfPath :: "json option \<Rightarrow> string option option" where
  "optionalPdfPath v =
     (case v of
        None \<Rightarrow> Some None
      | Some (JString s) \<Rightarrow> if isPdfPath s then Some (Some s) else None
      | _ \<Rightarrow> None)"

definition stringBetween :: "nat \<Rightarrow> nat \<Rightarrow> json option \<Rightarrow> string option" where
  "stringBetween lo hi v =
     (case v of
        Some (JString s) \<Rightarrow> if lo \<le> length s \<and> length s \<le> hi then Some s else None
      | _ \<Rightarrow> None)"

definition optionalStringBetween :: "nat \<Rightarrow> nat \<Rightarrow> json option \<Rightarrow> string option option" where
  "optionalStringBetween lo hi v =
     (case v of None \<Rightarrow> Some None | Some j \<Rightarrow> map_option Some (stringBetween lo hi (Some j)))"

definition optionalOneOf :: "string list \<Rightarrow> json option \<Rightarrow> string option option" where
  "optionalOneOf allowed v =
     (case v of
        None \<Rightarrow> Some None
      | Some (JString s) \<Rightarrow> if s \<in> set allowed then Some (Some s) else None
      | _ \<Rightarrow> None)"

definition priorities :: "string list" where
  "priorities = [''Highest'', ''High'', ''Medium'', ''Low'', ''Lowest'']"

definition issueTypes :: "string list" where
  "issueTypes = [''Bug'', ''Task'', ''Story'', ''Epic'', ''Sub-task'']"

text \<open>\<open>DailyStandupReportSchema\<close>. An absent optional field stays \<open>undefined\<close>.\<close>

definition validateDailyStandupReport :: "json \<Rightarrow> thrown + StandupArgs" where
  "validateDailyStandupReport args =
     (case args of
        JObject kvs \<Rightarrow>
          (case (positiveInt (map_of kvs ''boardId''),
                 optionalProjectKey (map_of kvs ''projectKey''),
                 optionalIntBetween 1 30 (map_of kvs ''daysStale''),
                 optionalBool (map_of kvs ''includeUnassigned'')) of
             (Some b, Some p, Some d, Some u) \<Rightarrow>
               if strictKeys [''boardId'', ''projectKey'', ''daysStale'', ''includeUnassigned''] kvs
               then Inr \<lparr> boardId = b, projectKey = p, daysStale = d, includeUnassigned = u \<rparr>
               else Inl validationFailed
           | _ \<Rightarrow> Inl validationFailed)
      | _ \<Rightarrow> Inl validationFailed)"

text \<open>\<open>GetSprintIssuesSchema\<close>.\<close>

definition validateGetSprintIssues :: "json \<Rightarrow> thrown + int" where
  "validateGetSprintIssues args =
     (case args of
        JObject kvs \<Rightarrow>
          (case positiveInt (map_of kvs ''boardId'') of
             Some b \<Rightarrow> if strictKeys [''boardId''] kvs then Inr b else Inl validationFailed
           | None \<Rightarrow> Inl validationFailed)
      | _ \<Rightarrow> Inl validationFailed)"

record PdfArgs =
  pdf_boardId :: int
  pdf_projectKey :: "string option"
  pdf_daysStale :: "int option"
  outputPath :: "string option"

text \<open>\<open>GenerateStandupPDFSchema\<close>.\<close>

definition validateGenerateStandupPDF :: "json \<Rightarrow> thrown + PdfArgs" where
  "validateGenerateStandupPDF args =
     (case args of
        JObject kvs \<Rightarrow>
          (case (positiveInt (map_of kvs ''boardId''),
                 optionalProjectKey (map_of kvs ''projectKey''),
                 optionalIntBetween 1 30 (map_of kvs ''daysStale''),
                 optionalPdfPath (map_of kvs ''outputPath'')) of
             (Some b, Some p, Some d, Some out) \<Rightarrow>
               if strictKeys [''boardId'', ''projectKey'', ''daysStale'', ''outputPath''] kvs
               then Inr \<lparr> pdf_boardId = b, pdf_projectKey = p, pdf_daysStale = d,
                          outputPath = out \<rparr>
               else Inl validationFailed
           | _ \<Rightarrow> Inl validationFailed)
      | _ \<Rightarrow> Inl validationFailed)"

text \<open>\<open>SearchJiraIssuesSchema\<close>: only success or failure matters to the handler.\<close>

definition validateSearchJiraIssues :: "json \<Rightarrow> thrown + unit" where
  "validateSearchJiraIssues args =
     (case args of
        JObject kvs \<Rightarrow>
          (case (stringBetween 1 2000 (map_of kvs ''jql''),
                 optionalIntBetween 1 100 (map_of kvs ''maxResults'')) of
             (Some q, Some m) \<Rightarrow>
               if strictKeys [''jql'', ''maxResults''] kvs then Inr () else Inl validationFailed
           | _ \<Rightarrow> Inl validationFailed)
      | _ \<Rightarrow> Inl validationFailed)"

record CreateArgs =
  create_project :: string
  create_summary :: string
  create_description :: "string option"
  create_issueType :: string
  create_assignee :: "string option"
  create_priority :: "string option"

text \<open>
  \<open>CreateJiraIssueSchema\<close>; \<open>isEmail\<close> is the test of \<open>z.string().email()\<close>, which belongs to
  the validation library.
\<close>

definition optionalEmail :: "(string \<Rightarrow> bool) \<Rightarrow> json option \<Rightarrow> string option option" where
  "optionalEmail isEmail v =
     (case v of
        None \<Rightarrow> Some None
      | Some (JString s) \<Rightarrow> if isEmail s then Some (Some s) else None
      | _ \<Rightarrow> None)"

definition validateCreateJiraIssue :: "(string \<Rightarrow> bool) \<Rightarrow> json \<Rightarrow> thrown + CreateArgs" where
  "validateCreateJiraIssue isEmail args =
     (case args of
        JObject kvs \<Rightarrow>
          (case (optionalProjectKey (map_of kvs ''project''),
                 stringBetween 1 255 (map_of kvs ''summary''),
                 optionalStringBetween 0 32768 (map_of kvs ''description''),
                 optionalOneOf issueTypes (map_of kvs ''issueType''),
                 optionalEmail isEmail (map_of kvs ''assignee''),
                 optionalOneOf priorities (map_of kvs ''priority'')) of
             (Some (Some p), Some s, Some d, Some (Some t), Some a, Some pr) \<Rightarrow>
               if strictKeys [''project'', ''summary'', ''description'', ''issueType'',
                              ''assignee'', ''priority''] kvs
               then Inr \<lparr> create_project = p, create_summary = s, create_description = d,
                          create_issueType = t, create_assignee = a, create_priority = pr \<rparr>
               else Inl validationFailed
           | _ \<Rightarrow> Inl validationFailed)
      | _ \<Rightarrow> Inl validationFailed)"

text \<open>
  \<open>UpdateJiraIssueSchema\<close>: the inner objects are not strict and lose their unknown keys;
  \<open>description\<close> is \<open>z.any()\<close>, kept as a flag that it is present.
\<close>

definition optionalNamed ::
  "string \<Rightarrow> (json option \<Rightarrow> string option option) \<Rightarrow> json option \<Rightarrow> string option option option"
  where
  "optionalNamed field parser v =
     (case v of
        None \<Rightarrow> Some None
      | Some (JObject kvs) \<Rightarrow> map_option Some (parser (map_of kvs field))
      | _ \<Rightarrow> None)"

definition requiredString :: "json option \<Rightarrow> string option option" where
  "requiredString v = (case v of Some (JString s) \<Rightarrow> Some (Some s) | _ \<Rightarrow> None)"

definition validateUpdateFields :: "(string \<Rightarrow> bool) \<Rightarrow> json option \<Rightarrow> UpdateFields option" where
  "validateUpdateFields isEmail v =
     (case v of
        Some (JObject kvs) \<Rightarrow>
          (case (optionalStringBetween 1 255 (map_of kvs ''summary''),
                 optionalNamed ''name'' (optionalOneOf priorities) (map_of kvs ''priority''),
                 optionalNamed ''emailAddress'' (optionalEmail isEmail) (map_of kvs ''assignee''),
                 optionalNamed ''name'' requiredString (map_of kvs ''status'')) of
             (Some s, Some pr, Some a, Some st) \<Rightarrow>
               if s = None \<and> map_of kvs ''description'' = None \<and> pr = None \<and> a = None
                  \<and> st = None
               then None
               else Some \<lparr> update_summary = s,
                           update_description = (map_of kvs ''description'' \<noteq> None),
                           update_priority = pr, update_assignee = a,
                           update_status = (case st of Some (Some n) \<Rightarrow> Some n | _ \<Rightarrow> None) \<rparr>
           | _ \<Rightarrow> None)
      | _ \<Rightarrow> None)"

definition validateUpdateJiraIssue ::
  "(string \<Rightarrow> bool) \<Rightarrow> json \<Rightarrow> thrown + string \<times> UpdateFields" where
  "validateUpdateJiraIssue isEmail args =
     (case args of
        JObject kvs \<Rightarrow>
          (case (map_of kvs ''issueKey'', validateUpdateFields isEmail (map_of kvs ''fields'')) of
             (Some (JString k), Some f) \<Rightarrow>
               if isIssueKey k \<and> strictKeys [''issueKey'', ''fields''] kvs then Inr (k, f)
               else Inl validationFailed
           | _ \<Rightarrow> Inl validationFailed)
      | _ \<Rightarrow> Inl validationFailed)"

section \<open>Tool handlers (src/jira-handler.ts, \<open>handleJiraTool\<close>)\<close>

text \<open>
  A handler body runs on the store and the world and returns a response or throws; \<open>None\<close> is a
  body that never returns. The logger swallows its own failures and is left out.
\<close>

type_synonym 'w outcome = "((thrown + ToolResponse) \<times> CacheManager \<times> 'w) option"

text \<open>Case \<open>jira_create_issue\<close>.\<close>

definition createIssue ::
  "Platform \<Rightarrow> (string \<Rightarrow> bool) \<Rightarrow> 'w Upstream \<Rightarrow> json \<Rightarrow> CacheManager \<Rightarrow> 'w \<Rightarrow> 'w outcome" where
  "createIssue pf isEmail up args c w =
     (case validateCreateJiraIssue isEmail args of
        Inl e \<Rightarrow> Some (Inl e, c, w)
      | Inr validatedArgs \<Rightarrow>
          (let issueData =
                 \<lparr> body_project = create_project validatedArgs,
                   body_summary = create_summary validatedArgs,
                   body_description = orElse (create_description validatedArgs) [],
                   body_issuetype = create_issueType validatedArgs,
                   body_priority = orNull (create_priority validatedArgs),
                   body_assignee = orNull (create_assignee validatedArgs) \<rparr>
           in case retry (sleep up) (intercepted up (postIssue up issueData))
                     (noOptions\<lparr> maxAttempts := Some 3 \<rparr>) w of
                (Inl e, w') \<Rightarrow> Some (Inl e, c, w')
              | (Inr responseKey, w') \<Rightarrow>
                  (let k = (case responseKey of None \<Rightarrow> ''undefined'' | Some k \<Rightarrow> k)
                   in Some (Inr (textResponse (PlainText
                              (''Created issue: '' @ k @ [CHR 0x0A] @ ''URL: '' @ baseUrl pf
                                 @ ''/browse/'' @ k))), c, w'))))"

text \<open>Case \<open>jira_search_issues\<close>.\<close>

definition searchIssues :: "json \<Rightarrow> CacheManager \<Rightarrow> 'w \<Rightarrow> 'w outcome" where
  "searchIssues args c w =
     (case validateSearchJiraIssues args of
        Inl e \<Rightarrow> Some (Inl e, c, w)
      | Inr _ \<Rightarrow> Some (Inr (textResponse SearchUnavailableJSON), c, w))"

text \<open>Case \<open>jira_update_issue\<close>.\<close>

definition updateIssue ::
  "(string \<Rightarrow> bool) \<Rightarrow> 'w Upstream \<Rightarrow> json \<Rightarrow> CacheManager \<Rightarrow> 'w \<Rightarrow> 'w outcome" where
  "updateIssue isEmail up args c w =
     (case validateUpdateJiraIssue isEmail args of
        Inl e \<Rightarrow> Some (Inl e, c, w)
      | Inr (issueKey, fields') \<Rightarrow>
          (case retry (sleep up) (intercepted up (putIssue up issueKey fields'))
                  (noOptions\<lparr> maxAttempts := Some 3 \<rparr>) w of
             (Inl e, w') \<Rightarrow> Some (Inl e, c, w')
           | (Inr _, w') \<Rightarrow>
               Some (Inr (textResponse (PlainText (''Updated issue: '' @ issueKey))),
                     cache_delete c (CacheKeys_issue issueKey), w')))"

text \<open>
  Case \<open>jira_get_sprint_issues\<close>: \<open>count[k] = (count[k] || 0) + 1\<close> on a dictionary. The
  dictionary is an object literal: under a key that \<open>Object.prototype\<close> owns (a status or an
  assignee named \<open>constructor\<close>) the code finds a function and its entry becomes a text, not
  a count. The model counts such a key like any other; the counts of every other key, and the
  summary, are the code's.
\<close>

definition countUp :: "string \<Rightarrow> (string \<times> int) list \<Rightarrow> (string \<times> int) list" where
  "countUp k m = AList.update k ((case map_of m k of None \<Rightarrow> 0 | Some n \<Rightarrow> n) + 1) m"

definition tallyIssue :: "SprintIssuesResult \<Rightarrow> JiraIssue \<Rightarrow> SprintIssuesResult" where
  "tallyIssue r issue =
     (let st = orElse (fields_status_name issue) ''Unknown'';
          assignee' = (case fields_assignee issue of
                         None \<Rightarrow> ''Unassigned''
                       | Some a \<Rightarrow> orElse (Some (displayName a)) ''Unassigned'');
          s = result_summary r;
          category = categorizeStatus st
      in r\<lparr> byStatus := countUp st (byStatus r),
            byAssigneeCount := countUp assignee' (byAssigneeCount r),
            result_summary :=
              (if category = completed then s\<lparr> completedIssues := completedIssues s + 1 \<rparr>
               else if category = inProgress
               then s\<lparr> inProgressIssues := inProgressIssues s + 1 \<rparr>
               else s\<lparr> todoIssues := todoIssues s + 1 \<rparr>) \<rparr>)"

definition getSprintIssuesTool ::
  "'w Upstream \<Rightarrow> json \<Rightarrow> CacheManager \<Rightarrow> 'w \<Rightarrow> 'w outcome" where
  "getSprintIssuesTool up args c w =
     (case validateGetSprintIssues args of
        Inl e \<Rightarrow> Some (Inl e, c, w)
      | Inr boardId' \<Rightarrow>
          (case getActiveSprint up boardId' c w of
             (Inl e, c1, w1) \<Rightarrow> Some (Inl e, c1, w1)
           | (Inr None, c1, w1) \<Rightarrow>
               Some (Inl (ThrownBase (sprintNotFound boardId' (clock up w1))), c1, w1)
           | (Inr (Some activeSprint), c1, w1) \<Rightarrow>
               (case getSprintTickets up (sprint_id activeSprint) c1 w1 of
                  None \<Rightarrow> None
                | Some (Inl e, c2, w2) \<Rightarrow> Some (Inl e, c2, w2)
                | Some (Inr tasks, c2, w2) \<Rightarrow>
                    Some (Inr (textResponse (SprintIssuesJSON
                            (foldl tallyIssue
                               \<lparr> result_sprintName = sprint_name activeSprint,
                                 totalIssues = int (length tasks),
                                 byStatus = [], byAssigneeCount = [],
                                 result_summary =
                                   \<lparr> totalSprintIssues = int (length tasks),
                                     completedIssues = 0, inProgressIssues = 0,
                                     todoIssues = 0, projectFiltered = False,
                                     summary_projectKey = None \<rparr> \<rparr>
                               tasks))), c2, w2))))"

text \<open>
  Case \<open>jira_daily_standup_report\<close>: \<open>standupReportFor\<close> is the case after the validation of
  its arguments.
\<close>

definition standupReportFor ::
  "Platform \<Rightarrow> 'w Upstream \<Rightarrow> StandupArgs \<Rightarrow> CacheManager \<Rightarrow> 'w \<Rightarrow> 'w outcome" where
  "standupReportFor pf up validatedArgs c w =
     (let cacheKey = CacheKeys_standupReport (boardId validatedArgs) (projectKey validatedArgs);
          (cachedReport, c0) = cache_get c (clock up w) cacheKey
      in case cachedReport of
           Some v \<Rightarrow> Some (Inr (textResponse (payloadOfCached v)), c0, w)
         | None \<Rightarrow>
             (case getActiveSprint up (boardId validatedArgs) c0 w of
                (Inl e, c1, w1) \<Rightarrow> Some (Inl e, c1, w1)
              | (Inr None, c1, w1) \<Rightarrow>
                  Some (Inl (ThrownBase
                          (sprintNotFound (boardId validatedArgs) (clock up w1))), c1, w1)
              | (Inr (Some activeSprint), c1, w1) \<Rightarrow>
                  (case getSprintTickets up (sprint_id activeSprint) c1 w1 of
                     None \<Rightarrow> None
                   | Some (Inl e, c2, w2) \<Rightarrow> Some (Inl e, c2, w2)
                   | Some (Inr issues', c2, w2) \<Rightarrow>
                       (case buildStandupReport pf (clock up w2) validatedArgs activeSprint
                               issues' of
                          Inl e \<Rightarrow> Some (Inl e, c2, w2)
                        | Inr report \<Rightarrow>
                            Some (Inr (textResponse (ReportJSON report)),
                                  cache_set c2 (clock up w2) cacheKey (CachedReport report)
                                    (Some 300),
                                  w2)))))"

definition dailyStandupReport ::
  "Platform \<Rightarrow> 'w Upstream \<Rightarrow> json \<Rightarrow> CacheManager \<Rightarrow> 'w \<Rightarrow> 'w outcome" where
  "dailyStandupReport pf up args c w =
     (case validateDailyStandupReport args of
        Inl e \<Rightarrow> Some (Inl e, c, w)
      | Inr validatedArgs \<Rightarrow> standupReportFor pf up validatedArgs c w)"

text \<open>
  The \<open>catch\<close> of \<open>handleJiraTool\<close>: what a body throws becomes the response of
  \<open>ErrorHandler.handle(error, name)\<close>. \<open>JSON.stringify\<close> of an error response is taken to
  succeed, as it does on the strings, numbers and plain objects that the handler puts into one.
\<close>

definition catchAll ::
  "Platform \<Rightarrow> 'w Upstream \<Rightarrow> string \<Rightarrow> 'w outcome
     \<Rightarrow> (ToolResponse \<times> CacheManager \<times> 'w) option" where
  "catchAll pf up name' result =
     (case result of
        None \<Rightarrow> None
      | Some (Inr response, c, w) \<Rightarrow> Some (response, c, w)
      | Some (Inl err, c, w) \<Rightarrow>
          Some (textResponse (ErrorJSON (handle pf (clock up w) err name')), c, w))"

text \<open>
  Case \<open>jira_generate_standup_pdf\<close>. The inner call is \<open>handleJiraTool\<close> on the standup tool, that
  is the standup case under the \<open>catch\<close>; \<open>JSON.parse\<close> gives back the value of its response.
  \<open>reportData.error\<close> is truthy for an error response with a message; any other value goes to
  the renderer, and only a report has the \<open>summary\<close> that is read afterwards.
\<close>

definition generateStandupPDFTool ::
  "Platform \<Rightarrow> 'w Upstream \<Rightarrow> json \<Rightarrow> CacheManager \<Rightarrow> 'w \<Rightarrow> 'w outcome" where
  "generateStandupPDFTool pf up args c w =
     (case validateGenerateStandupPDF args of
        Inl e \<Rightarrow> Some (Inl e, c, w)
      | Inr validatedArgs \<Rightarrow>
          (case catchAll pf up ''jira_daily_standup_report''
                  (dailyStandupReport pf up
                     (JObject
                        ([(''boardId'', JNumber (pdf_boardId validatedArgs))]
                         @ (case pdf_projectKey validatedArgs of
                              None \<Rightarrow> []
                            | Some pk \<Rightarrow> [(''projectKey'', JString pk)])
                         @ [(''daysStale'',
                             JNumber (case pdf_daysStale validatedArgs of
                                        None \<Rightarrow> 2
                                      | Some d \<Rightarrow> if d = 0 then 2 else d)),
                            (''includeUnassigned'', JBool True)]))
                     c w) of
             None \<Rightarrow> None
           | Some (reportResponse, c1, w1) \<Rightarrow>
               (case content reportResponse of
                  [] \<Rightarrow> Some (Inl (ThrownError ''TypeError'' ''no content''), c1, w1)
                | reportData # _ \<Rightarrow>
                    if (case reportData of ErrorJSON r \<Rightarrow> error r \<noteq> [] | _ \<Rightarrow> False)
                    then Some (Inl (ThrownBase (reportDataFailed (clock up w1))), c1, w1)
                    else
                      (case generateStandupPDF up reportData (outputPath validatedArgs) w1 of
                         (Inl e, w2) \<Rightarrow> Some (Inl e, c1, w2)
                       | (Inr pdfPath, w2) \<Rightarrow>
                           (case reportData of
                              ReportJSON r \<Rightarrow>
                                Some (Inr (textResponse (PdfJSON
                                        \<lparr> filePath = pdfPath, pdf_sprint = sprintName r,
                                          pdf_date = date r,
                                          pdf_totalIssues =
                                            totalSprintIssues (sprintSummary r),
                                          pdf_overdueCount = int (length (overdueIssues r)),
                                          pdf_staleCount = int (length (staleIssues r)) \<rparr>)),
                                      c1, w2)
                            | _ \<Rightarrow>
                                Some (Inl (ThrownError ''TypeError''
                                             ''Cannot read properties of undefined''),
                                      c1, w2))))))"

text \<open>The \<open>switch\<close> of \<open>handleJiraTool\<close>.\<close>

definition toolBody ::
  "Platform \<Rightarrow> (string \<Rightarrow> bool) \<Rightarrow> 'w Upstream \<Rightarrow> string \<Rightarrow> json \<Rightarrow> CacheManager \<Rightarrow> 'w
     \<Rightarrow> 'w outcome" where
  "toolBody pf isEmail up name' args c w =
     (if name' = ''jira_create_issue'' then createIssue pf isEmail up args c w
      else if name' = ''jira_search_issues'' then searchIssues args c w
      else if name' = ''jira_update_issue'' then updateIssue isEmail up args c w
      else if name' = ''jira_get_sprint_issues'' then getSprintIssuesTool up args c w
      else if name' = ''jira_daily_standup_report'' then dailyStandupReport pf up args c w
      else if name' = ''jira_generate_standup_pdf'' then generateStandupPDFTool pf up args c w
      else Some (Inl (ThrownBase (unknownTool name' (clock up w))), c, w))"

text \<open>\<open>handleJiraTool(name, args)\<close>.\<close>

definition handleJiraTool ::
  "Platform \<Rightarrow> (string \<Rightarrow> bool) \<Rightarrow> 'w Upstream \<Rightarrow> string \<Rightarrow> json \<Rightarrow> CacheManager \<Rightarrow> 'w
     \<Rightarrow> (ToolResponse \<times> CacheManager \<times> 'w) option" where
  "handleJiraTool pf isEmail up name' args c w =
     catchAll pf up name' (toolBody pf isEmail up name' args c w)"

text \<open>The arguments of a call without one of their keys.\<close>

definition withoutKey :: "string \<Rightarrow> json \<Rightarrow> json" where
  "withoutKey k args =
     (case args of JObject kvs \<Rightarrow> JObject (filter (\<lambda>kv. fst kv \<noteq> k) kvs) | _ \<Rightarrow> args)"

section \<open>Example data\<close>

text \<open>
  A platform for the examples: it parses the dates of the examples, and its collation is the
  order of the code units.
\<close>

definition codeUnitCompare :: "string \<Rightarrow> string \<Rightarrow> int" where
  "codeUnitCompare a b = (if a < b then - 1 else if a = b then 0 else 1)"

definition examplePlatform :: Platform where
  "examplePlatform =
     \<lparr> parseDate = map_of [(''2024-03-01'', 1709251200000), (''2024-03-04'', 1709510400000),
                            (''2024-03-06'', 1709683200000), (''2024-03-08'', 1709856000000),
                            (''2024-03-10'', 1710028800000), (''2024-03-11'', 1710115200000)],
       isoDate = (\<lambda>t. ''2024-03-11''),
       localeCompare = codeUnitCompare,
       baseUrl = ''https://jira.example'',
       development = False \<rparr>"

text \<open>The clock of the examples: 2024-03-11T09:40:00Z.\<close>

definition exampleNow :: int where
  "exampleNow = 1710150000000"

definition blankIssue :: JiraIssue where
  "blankIssue =
     \<lparr> issue_key = ''WEB-0'', fields_summary = None, fields_status_name = None,
       fields_assignee = None, fields_updated = None, fields_created = None,
       fields_duedate = None, fields_priority_name = None, fields_labels = None,
       fields_project_key = None, fields_comments = None \<rparr>"

definition alice :: Assignee where
  "alice = \<lparr> displayName = ''Alice'', emailAddress = ''alice@example.com'', accountId = ''a1'' \<rparr>"

definition bob :: Assignee where
  "bob = \<lparr> displayName = ''Bob'', emailAddress = ''bob@example.com'', accountId = ''b2'' \<rparr>"

text \<open>"Done", updated 10 days ago.\<close>

definition issueDone :: JiraIssue where
  "issueDone =
     blankIssue\<lparr> issue_key := ''WEB-1'', fields_status_name := Some ''Done'',
       fields_assignee := Some alice, fields_updated := Some ''2024-03-01'',
       fields_duedate := Some ''2024-03-04'', fields_labels := Some [''blocked''],
       fields_project_key := Some ''WEB'' \<rparr>"

text \<open>"In Progress", updated 5 days ago, due yesterday.\<close>

definition issueInProgress :: JiraIssue where
  "issueInProgress =
     blankIssue\<lparr> issue_key := ''WEB-2'', fields_status_name := Some ''In Progress'',
       fields_assignee := Some alice, fields_updated := Some ''2024-03-06'',
       fields_duedate := Some ''2024-03-10'', fields_project_key := Some ''WEB'' \<rparr>"

text \<open>"To Do", unassigned, updated today.\<close>

definition issueTodo :: JiraIssue where
  "issueTodo =
     blankIssue\<lparr> issue_key := ''WEB-3'', fields_status_name := Some ''To Do'',
       fields_updated := Some ''2024-03-11'', fields_project_key := Some ''WEB'' \<rparr>"

text \<open>"Code Review" in another project, updated 10 days ago, due a week ago.\<close>

definition issueReview :: JiraIssue where
  "issueReview =
     blankIssue\<lparr> issue_key := ''OPS-4'', fields_status_name := Some ''Code Review'',
       fields_assignee := Some bob, fields_updated := Some ''2024-03-01'',
       fields_duedate := Some ''2024-03-04'', fields_project_key := Some ''OPS'' \<rparr>"

text \<open>"Closed" in another project.\<close>

definition issueClosedOps :: JiraIssue where
  "issueClosedOps =
     blankIssue\<lparr> issue_key := ''OPS-5'', fields_status_name := Some ''Closed'',
       fields_assignee := Some bob, fields_updated := Some ''2024-03-01'',
       fields_project_key := Some ''OPS'' \<rparr>"

definition exampleIssues :: "JiraIssue list" where
  "exampleIssues = [issueDone, issueInProgress, issueTodo, issueReview]"

definition exampleArgs :: StandupArgs where
  "exampleArgs =
     \<lparr> boardId = 1, projectKey = None, daysStale = Some 2, includeUnassigned = None \<rparr>"

definition exampleArgsWEB :: StandupArgs where
  "exampleArgsWEB = exampleArgs\<lparr> projectKey := Some ''WEB'' \<rparr>"

definition sprint42 :: Sprint where
  "sprint42 =
     \<lparr> sprint_id = 7, sprint_name = ''Sprint 42'', sprint_state = ''active'',
       originBoardId = 1 \<rparr>"

text \<open>
  A world for the examples: a clock and the log of the requests made. \<open>exampleUpstream xs\<close> is a
  board whose active sprint is \<open>sprint42\<close> with the issues \<open>xs\<close>, served in pages.
\<close>

record World =
  world_time :: int
  requests :: "string list"

definition logRequest :: "string \<Rightarrow> World \<Rightarrow> World" where
  "logRequest r w = w\<lparr> world_time := world_time w + 100, requests := requests w @ [r] \<rparr>"

definition exampleUpstream :: "JiraIssue list \<Rightarrow> World Upstream" where
  "exampleUpstream xs =
     \<lparr> clock = world_time,
       sleep = (\<lambda>d w. w\<lparr> world_time := world_time w + d \<rparr>),
       getBoardSprints =
         (\<lambda>b w. (Inr \<lparr> values_field = Some [sprint42] \<rparr>, logRequest ''sprints'' w)),
       getSprintIssues =
         (\<lambda>sid startAt maxResults w.
            (Inr \<lparr> resp_issues = Some (take (nat maxResults) (drop (nat startAt) xs)),
                   resp_total = Some (int (length xs)) \<rparr>,
             logRequest (''issues from '' @ showInt startAt) w)),
       postIssue = (\<lambda>b w. (Inr (Some ''WEB-9''), logRequest ''create'' w)),
       putIssue = (\<lambda>k f w. (Inr (), logRequest ''update'' w)),
       generateStandupPDF = (\<lambda>p out w. (Inr ''report.pdf'', logRequest ''pdf'' w)) \<rparr>"

definition exampleWorld :: World where
  "exampleWorld = \<lparr> world_time = exampleNow, requests = [] \<rparr>"

definition standupCall :: "(string \<times> json) list \<Rightarrow> json" where
  "standupCall extra = JObject ((''boardId'', JNumber 1) # extra)"

text \<open>
  An operation that answers 503 on its first \<open>n\<close> calls and then returns: the calls so far are
  the requests of the log.
\<close>

definition serviceUnavailable :: AxiosError where
  "serviceUnavailable =
     \<lparr> response_status = Some 503, response_data = None, config_url = Some ''/sprint/7/issue'',
       config_method = Some ''get'' \<rparr>"

definition flaky :: "nat \<Rightarrow> World \<Rightarrow> (thrown + string) \<times> World" where
  "flaky n w =
     (if length (requests w) < n
      then (Inl (ThrownBase (fromAxiosError serviceUnavailable (world_time w))),
            logRequest ''attempt'' w)
      else (Inr ''ok'', logRequest ''attempt'' w))"

definition wait :: "int \<Rightarrow> World \<Rightarrow> World" where
  "wait d w = w\<lparr> world_time := world_time w + d \<rparr>"

text \<open>The options of the page fetches: \<open>{ maxAttempts: 3 }\<close>.\<close>

definition retryThrice :: RetryOptions where
  "retryThrice = noOptions\<lparr> maxAttempts := Some 3 \<rparr>"


text \<open>A sprint of 120 issues, and a server that answers 404 for the pages from an offset on.\<close>

definition issues120 :: "JiraIssue list" where
  "issues120 = map (\<lambda>k. blankIssue\<lparr> issue_key := ''WEB-'' @ showNat k \<rparr>) [0..<120]"

definition notFound :: AxiosError where
  "notFound =
     \<lparr> response_status = Some 404, response_data = None, config_url = Some ''/sprint/7/issue'',
       config_method = Some ''get'' \<rparr>"

definition failingFrom :: "int \<Rightarrow> JiraIssue list \<Rightarrow> World Upstream" where
  "failingFrom n xs =
     (exampleUpstream xs)
       \<lparr> getSprintIssues :=
           (\<lambda>sid startAt maxResults w.
              if startAt \<ge> n then (Inl notFound, logRequest (''issues from '' @ showInt startAt) w)
              else getSprintIssues (exampleUpstream xs) sid startAt maxResults w) \<rparr>"

text \<open>A board without an active sprint.\<close>

definition emptyBoard :: "World Upstream" where
  "emptyBoard =
     (exampleUpstream [])
       \<lparr> getBoardSprints :=
           (\<lambda>b w. (Inr \<lparr> values_field = Some [] \<rparr>, logRequest ''sprints'' w)) \<rparr>"

text \<open>
  A platform whose collation compares letters without regard to their case, as the default
  collation of \<open>localeCompare\<close> does wherever two strings differ in more than the case of their
  letters: \<open>feb 1 2024\<close> collates before \<open>Mar 1 2024\<close>, which the order of the code units puts
  first. Its \<open>Date\<close> parses these texts (as midnight of the day, UTC), and a sprint has issues
  with such due dates, all in the past.
\<close>

definition caseInsensitiveCompare :: "string \<Rightarrow> string \<Rightarrow> int" where
  "caseInsensitiveCompare a b = codeUnitCompare (toLowerCase a) (toLowerCase b)"

definition localePlatform :: Platform where
  "localePlatform =
     examplePlatform
       \<lparr> parseDate := map_of [(''Mar 1 2024'', 1709251200000), (''feb 1 2024'', 1706745600000),
                              (''2024-03-04'', 1709510400000)],
         localeCompare := caseInsensitiveCompare \<rparr>"

definition issueDueMarch :: JiraIssue where
  "issueDueMarch =
     blankIssue\<lparr> issue_key := ''WEB-11'', fields_status_name := Some ''In Progress'',
       fields_assignee := Some alice, fields_duedate := Some ''Mar 1 2024'',
       fields_project_key := Some ''WEB'' \<rparr>"

definition issueDueFebruary :: JiraIssue where
  "issueDueFebruary =
     blankIssue\<lparr> issue_key := ''WEB-12'', fields_status_name := Some ''In Progress'',
       fields_assignee := Some alice, fields_duedate := Some ''feb 1 2024'',
       fields_project_key := Some ''WEB'' \<rparr>"

definition issueDueIso :: JiraIssue where
  "issueDueIso =
     blankIssue\<lparr> issue_key := ''WEB-13'', fields_status_name := Some ''In Progress'',
       fields_assignee := Some bob, fields_duedate := Some ''2024-03-04'',
       fields_project_key := Some ''WEB'' \<rparr>"

definition textDueIssues :: "JiraIssue list" where
  "textDueIssues = [issueDueMarch, issueDueFebruary, issueDueIso]"

section \<open>The summary counts of a report\<close>

text \<open>The status text the classifier works on, and its classification.\<close>

lemma processIssue_status:
  "status (processIssue pf now i b d) = orElse (fields_status_name i) ''Unknown''"
  by (simp add: processIssue_def Let_def)

lemma processIssue_categories_completed:
  "categorizeStatus (orElse (fields_status_name i) ''Unknown'') = completed
     \<Longrightarrow> categories (processIssue pf now i b d) = []"
  by (simp add: processIssue_def Let_def computeCategories_def)

lemma groupByAssignee_summary:
  "groupByAssignee p d r = Inr r' \<Longrightarrow> sprintSummary r' = sprintSummary r"
  by (auto simp: groupByAssignee_def Let_def split: if_splits)

lemma pushCategories_summary [simp]:
  "sprintSummary (pushCategories cs d r) = sprintSummary r"
  by (simp add: pushCategories_def)

lemma addIssue_filteredOut:
  "filteredOut args i \<Longrightarrow> addIssue pf now args ds r i = Inr r"
  by (simp add: addIssue_def)

lemma addIssue_completed:
  assumes "\<not> filteredOut args i"
    and "issueStatusCategory i = completed"
  shows "addIssue pf now args ds r i = Inr (incCompleted (incTotal r))"
  using assms by (simp add: addIssue_def Let_def processIssue_status issueStatusCategory_def)

lemma addIssue_summary:
  assumes "addIssue pf now args ds r i = Inr r'"
  shows "sprintSummary r' =
           (if filteredOut args i then sprintSummary r
            else case issueStatusCategory i of
                   completed \<Rightarrow> sprintSummary (incCompleted (incTotal r))
                 | inProgress \<Rightarrow> sprintSummary (incInProgress (incTotal r))
                 | todo \<Rightarrow> sprintSummary (incTodo (incTotal r)))"
proof (cases "filteredOut args i")
  case True
  with assms show ?thesis by (simp add: addIssue_filteredOut)
next
  case False
  show ?thesis
  proof (cases "issueStatusCategory i")
    case completed
    with False assms show ?thesis by (simp add: addIssue_completed)
  next
    case inProgress
    with False assms show ?thesis
      by (auto simp: addIssue_def Let_def processIssue_status issueStatusCategory_def
               dest!: groupByAssignee_summary)
  next
    case todo
    with False assms show ?thesis
      by (auto simp: addIssue_def Let_def processIssue_status issueStatusCategory_def
               dest!: groupByAssignee_summary)
  qed
qed

text \<open>The issues of a list that the filter lets through and that classify as \<open>c\<close>.\<close>

lemma forEach_addIssue_counts:
  assumes "forEach (addIssue pf now args ds) xs r = Inr r'"
  shows "totalSprintIssues (sprintSummary r') =
           totalSprintIssues (sprintSummary r) + int (length (keptIssues args xs))
       \<and> completedIssues (sprintSummary r') =
           completedIssues (sprintSummary r) + int (length (issuesOfCategory completed args xs))
       \<and> inProgressIssues (sprintSummary r') =
           inProgressIssues (sprintSummary r) + int (length (issuesOfCategory inProgress args xs))
       \<and> todoIssues (sprintSummary r') =
           todoIssues (sprintSummary r) + int (length (issuesOfCategory todo args xs))"
  using assms
proof (induction xs arbitrary: r)
  case Nil
  then show ?case by (simp add: keptIssues_def issuesOfCategory_def)
next
  case (Cons x xs)
  from Cons.prems obtain m where
    step: "addIssue pf now args ds r x = Inr m"
    and rest: "forEach (addIssue pf now args ds) xs m = Inr r'"
    by (auto split: sum.splits)
  note ih = Cons.IH[OF rest]
  note s = addIssue_summary[OF step]
  show ?case
  proof (cases "filteredOut args x")
    case True
    with ih s show ?thesis by (simp add: keptIssues_def issuesOfCategory_def)
  next
    case False
    then show ?thesis
      using ih s
      by (cases "issueStatusCategory x")
         (simp_all add: keptIssues_def issuesOfCategory_def
            incTotal_def incCompleted_def incInProgress_def incTodo_def)
  qed
qed

lemma length_keptIssues_split:
  "length (keptIssues args xs) =
     length (issuesOfCategory completed args xs) + length (issuesOfCategory inProgress args xs)
       + length (issuesOfCategory todo args xs)"
proof (induction xs)
  case Nil
  then show ?case by (simp add: keptIssues_def issuesOfCategory_def)
next
  case (Cons x xs)
  then show ?case
    by (cases "issueStatusCategory x") (simp_all add: keptIssues_def issuesOfCategory_def)
qed

lemma buildStandupReport_Inr:
  assumes "buildStandupReport pf now args activeSprint xs = Inr report"
  obtains r where
    "forEach (addIssue pf now args (effectiveDaysStale args)) xs
       (initialReport pf now args activeSprint) = Inr r"
    and "report = sortReport pf r"
  using assms by (auto simp: buildStandupReport_def split: sum.splits)

text \<open>
  C1. Every report the standup builder returns, for any issue list and any project filter, has
  \<open>totalSprintIssues = completedIssues + inProgressIssues + todoIssues\<close>; the four counts are
  those of the issues that the project filter lets through: their number, and the numbers of
  them whose status classifies as completed, in progress and to do.
\<close>

theorem standup_summary_counts_add_up:
  assumes "buildStandupReport pf now args activeSprint xs = Inr report"
  shows "totalSprintIssues (sprintSummary report) =
           completedIssues (sprintSummary report) + inProgressIssues (sprintSummary report)
             + todoIssues (sprintSummary report)
       \<and> totalSprintIssues (sprintSummary report) = int (length (keptIssues args xs))
       \<and> completedIssues (sprintSummary report) =
           int (length (issuesOfCategory completed args xs))
       \<and> inProgressIssues (sprintSummary report) =
           int (length (issuesOfCategory inProgress args xs))
       \<and> todoIssues (sprintSummary report) = int (length (issuesOfCategory todo args xs))"
proof -
  from assms obtain r where
    fe: "forEach (addIssue pf now args (effectiveDaysStale args)) xs
           (initialReport pf now args activeSprint) = Inr r"
    and rep: "report = sortReport pf r"
    by (rule buildStandupReport_Inr)
  have s: "sprintSummary report = sprintSummary r"
    using rep by (simp add: sortReport_def)
  from forEach_addIssue_counts[OF fe] show ?thesis
    unfolding s by (simp add: initialReport_def length_keptIssues_split)
qed

lemma example_report_summary:
  "map_sum (\<lambda>e. ()) sprintSummary
     (buildStandupReport examplePlatform exampleNow exampleArgsWEB sprint42 exampleIssues) =
   Inr \<lparr> totalSprintIssues = 3, completedIssues = 1, inProgressIssues = 1, todoIssues = 1,
         projectFiltered = True, summary_projectKey = Some ''WEB'' \<rparr>"
  by code_simp

theorem standup_summary_counts_add_up_witness:
  "\<exists>report.
     buildStandupReport examplePlatform exampleNow exampleArgsWEB sprint42 exampleIssues
       = Inr report
   \<and> totalSprintIssues (sprintSummary report) = 3
   \<and> completedIssues (sprintSummary report) = 1
   \<and> inProgressIssues (sprintSummary report) = 1
   \<and> todoIssues (sprintSummary report) = 1
   \<and> length (keptIssues exampleArgsWEB exampleIssues) = 3"
proof -
  from example_report_summary obtain report where
    b: "buildStandupReport examplePlatform exampleNow exampleArgsWEB sprint42 exampleIssues
          = Inr report"
    and s: "sprintSummary report =
              \<lparr> totalSprintIssues = 3, completedIssues = 1, inProgressIssues = 1,
                todoIssues = 1, projectFiltered = True, summary_projectKey = Some ''WEB'' \<rparr>"
    by (cases "buildStandupReport examplePlatform exampleNow exampleArgsWEB sprint42
                 exampleIssues") auto
  from standup_summary_counts_add_up[OF b] s b show ?thesis by auto
qed


section \<open>The stable sort\<close>

lemma set_insertBy: "set (insertBy cmp x ys) = insert x (set ys)"
  by (induction ys) auto

lemma set_sortBy: "set (sortBy cmp xs) = set xs"
  by (induction xs) (auto simp: sortBy_def set_insertBy)

lemma sorted_wrt_insertBy:
  assumes "sorted_wrt R ys" and "x \<in> A" and "set ys \<subseteq> A"
    and cmp: "\<And>a b. a \<in> A \<Longrightarrow> b \<in> A \<Longrightarrow> (cmp a b \<le> 0) = R a b"
    and total: "\<And>a b. a \<in> A \<Longrightarrow> b \<in> A \<Longrightarrow> R a b \<or> R b a"
    and trans: "\<And>a b c. a \<in> A \<Longrightarrow> b \<in> A \<Longrightarrow> c \<in> A \<Longrightarrow> R a b \<Longrightarrow> R b c \<Longrightarrow> R a c"
  shows "sorted_wrt R (insertBy cmp x ys)"
  using assms(1,3)
proof (induction ys)
  case Nil
  then show ?case by simp
next
  case (Cons y ys)
  show ?case
  proof (cases "cmp x y \<le> 0")
    case True
    with Cons.prems assms(2) have "R x y" by (simp add: cmp)
    moreover have "\<forall>z\<in>set ys. R x z"
    proof
      fix z assume z: "z \<in> set ys"
      with Cons.prems have "R y z" by simp
      with \<open>R x y\<close> show "R x z"
        using trans[of x y z] assms(2) Cons.prems(2) z by auto
    qed
    ultimately show ?thesis using True Cons.prems by simp
  next
    case False
    with Cons.prems assms(2) have "\<not> R x y" by (simp add: cmp)
    with total[of x y] assms(2) Cons.prems(2) have "R y x" by auto
    with False Cons show ?thesis by (auto simp: set_insertBy)
  qed
qed

lemma sorted_wrt_sortBy:
  assumes "set xs \<subseteq> A"
    and cmp: "\<And>a b. a \<in> A \<Longrightarrow> b \<in> A \<Longrightarrow> (cmp a b \<le> 0) = R a b"
    and total: "\<And>a b. a \<in> A \<Longrightarrow> b \<in> A \<Longrightarrow> R a b \<or> R b a"
    and trans: "\<And>a b c. a \<in> A \<Longrightarrow> b \<in> A \<Longrightarrow> c \<in> A \<Longrightarrow> R a b \<Longrightarrow> R b c \<Longrightarrow> R a c"
  shows "sorted_wrt R (sortBy cmp xs)"
  using assms(1)
proof (induction xs)
  case Nil
  then show ?case by (simp add: sortBy_def)
next
  case (Cons x xs)
  then have "sorted_wrt R (sortBy cmp xs)" by simp
  then have "sorted_wrt R (insertBy cmp x (sortBy cmp xs))"
    by (rule sorted_wrt_insertBy[where A = A]) (use Cons.prems in \<open>auto simp: set_sortBy cmp total intro: trans\<close>)
  then show ?case by (simp add: sortBy_def)
qed

section \<open>Completed issues are counted and nothing else\<close>

lemma forEach_invariant_mem:
  assumes "forEach f xs s = Inr s'" and "P s"
    and step: "\<And>a x b. x \<in> set xs \<Longrightarrow> P a \<Longrightarrow> f a x = Inr b \<Longrightarrow> P b"
  shows "P s'"
  using assms
proof (induction xs arbitrary: s)
  case Nil
  then show ?case by simp
next
  case (Cons x xs)
  from Cons.prems(1) obtain m where m: "f s x = Inr m" and rest: "forEach f xs m = Inr s'"
    by (auto split: sum.splits)
  have "P m" using Cons.prems(2,3) m by auto
  with rest show ?case using Cons.IH Cons.prems(3) by auto
qed

lemma truncate_fields [simp]:
  "status (IssueData.truncate p) = status p"
  "daysSinceUpdate (IssueData.truncate p) = daysSinceUpdate p"
  "duedate (IssueData.truncate p) = duedate p"
  by (simp_all add: IssueData.truncate_def)

lemma entries_update:
  "set (concat (map (\<lambda>kb. issues (snd kb)) (AList.update k b al)))
     \<subseteq> set (issues b) \<union> set (concat (map (\<lambda>kb. issues (snd kb)) al))"
  by (induction al) auto

lemma map_of_entries:
  "map_of al k = Some b \<Longrightarrow> set (issues b) \<subseteq> set (concat (map (\<lambda>kb. issues (snd kb)) al))"
  by (induction al) (auto split: if_splits)

lemma groupByAssignee_Inr:
  assumes "groupByAssignee p d r = Inr r'"
  obtains b' where "r' = r\<lparr> byAssignee := AList.update (assignee p) b' (byAssignee r) \<rparr>"
    and "issues b' =
           (case map_of (byAssignee r) (assignee p) of None \<Rightarrow> [] | Some b \<Rightarrow> issues b) @ [d]"
    and "assignee p \<notin> set objectPrototypeKeys"
  using assms
  by (cases "assignee p \<in> set objectPrototypeKeys")
     (auto simp: groupByAssignee_def Let_def split: option.splits)

lemma groupByAssignee_entries:
  assumes "groupByAssignee p d r = Inr r'"
  shows "set (reportEntries r') \<subseteq> insert d (set (reportEntries r))"
proof -
  let ?k = "assignee p"
  let ?E = "\<lambda>al. set (concat (map (\<lambda>kb. issues (snd kb)) al))"
  from assms obtain b' where
    r': "r' = r\<lparr> byAssignee := AList.update ?k b' (byAssignee r) \<rparr>"
    and ib: "issues b' =
               (case map_of (byAssignee r) ?k of None \<Rightarrow> [] | Some b \<Rightarrow> issues b) @ [d]"
    by (rule groupByAssignee_Inr)
  have "?E (AList.update ?k b' (byAssignee r)) \<subseteq> set (issues b') \<union> ?E (byAssignee r)"
    by (rule entries_update)
  moreover have "set (issues b') \<subseteq> insert d (?E (byAssignee r))"
    using ib map_of_entries[of "byAssignee r" ?k] by (auto split: option.splits)
  ultimately have "?E (byAssignee r') \<subseteq> insert d (?E (byAssignee r))"
    unfolding r' by auto
  then show ?thesis
    unfolding reportEntries_def r' by auto
qed

lemma groupByAssignee_lists:
  assumes "groupByAssignee p d r = Inr r'"
  shows "staleIssues r' = staleIssues r" and "overdueIssues r' = overdueIssues r"
    and "unassignedIssues r' = unassignedIssues r" and "blockedIssues r' = blockedIssues r"
  using assms by (auto elim!: groupByAssignee_Inr)

lemma pushCategories_entries:
  "set (reportEntries (pushCategories cs d r)) \<subseteq> insert d (set (reportEntries r))"
  by (auto simp: pushCategories_def reportEntries_def)

lemma reportEntries_counters [simp]:
  "reportEntries (incTotal r) = reportEntries r"
  "reportEntries (incCompleted r) = reportEntries r"
  "reportEntries (incInProgress r) = reportEntries r"
  "reportEntries (incTodo r) = reportEntries r"
  by (simp_all add: reportEntries_def incTotal_def incCompleted_def incInProgress_def incTodo_def)

lemma addIssue_entries:
  assumes "addIssue pf now args ds r i = Inr r'"
  shows "set (reportEntries r') \<subseteq> set (reportEntries r)
           \<union> (if filteredOut args i \<or> issueStatusCategory i = completed then {}
               else {IssueData.truncate (processIssue pf now i (baseUrl pf) ds)})"
proof (cases "filteredOut args i \<or> issueStatusCategory i = completed")
  case True
  then have "r' = r \<or> r' = incCompleted (incTotal r)"
    using assms addIssue_filteredOut[of args i pf now ds r]
      addIssue_completed[of args i pf now ds r] by (cases "filteredOut args i") auto
  with True show ?thesis by auto
next
  case False
  let ?p = "processIssue pf now i (baseUrl pf) ds"
  let ?d = "IssueData.truncate ?p"
  from False assms obtain r2 where
    g: "groupByAssignee ?p ?d (pushCategories (categories ?p) ?d r2) = Inr r'"
    and r2: "reportEntries r2 = reportEntries r"
    by (auto simp: addIssue_def Let_def processIssue_status issueStatusCategory_def
             split: if_splits)
  from groupByAssignee_entries[OF g] pushCategories_entries[of "categories ?p" ?d r2] r2 False
  show ?thesis by auto
qed

lemma reportEntries_sortReport: "set (reportEntries (sortReport pf r)) = set (reportEntries r)"
  by (simp add: reportEntries_def sortReport_def set_sortBy)

lemma built_entries_open:
  assumes "forEach (addIssue pf now args ds) xs r0 = Inr r"
    and "\<forall>d\<in>set (reportEntries r0). categorizeStatus (status d) \<noteq> completed"
  shows "\<forall>d\<in>set (reportEntries r). categorizeStatus (status d) \<noteq> completed"
  using assms(1,2)
proof (rule forEach_invariant_mem)
  fix a x b
  assume a: "\<forall>d\<in>set (reportEntries a). categorizeStatus (status d) \<noteq> completed"
    and s: "addIssue pf now args ds a x = Inr b"
  show "\<forall>d\<in>set (reportEntries b). categorizeStatus (status d) \<noteq> completed"
  proof
    fix d assume "d \<in> set (reportEntries b)"
    with addIssue_entries[OF s] consider "d \<in> set (reportEntries a)"
      | "issueStatusCategory x \<noteq> completed"
        "d = IssueData.truncate (processIssue pf now x (baseUrl pf) ds)"
      by (auto split: if_splits)
    then show "categorizeStatus (status d) \<noteq> completed"
    proof cases
      case 1
      with a show ?thesis by auto
    next
      case 2
      then show ?thesis by (simp add: processIssue_status issueStatusCategory_def)
    qed
  qed
qed


text \<open>
  A completed issue in the middle of the list: the counters it raises commute with every later
  step of the loop and with the sort.
\<close>

lemma forEach_append:
  "forEach f (ys @ zs) s =
     (case forEach f ys s of Inl e \<Rightarrow> Inl e | Inr s' \<Rightarrow> forEach f zs s')"
  by (induction ys arbitrary: s) (auto split: sum.splits)

lemma counters_commute:
  "incInProgress (incTotal (incCompleted (incTotal r))) =
     incCompleted (incTotal (incInProgress (incTotal r)))"
  "incTodo (incTotal (incCompleted (incTotal r))) =
     incCompleted (incTotal (incTodo (incTotal r)))"
  by (simp_all add: incTotal_def incCompleted_def incInProgress_def incTodo_def)

lemma pushCategories_counted:
  "pushCategories cs d (incCompleted (incTotal r)) =
     incCompleted (incTotal (pushCategories cs d r))"
  by (simp add: pushCategories_def incTotal_def incCompleted_def)

lemma groupByAssignee_counted:
  "groupByAssignee p d (incCompleted (incTotal r)) =
     map_sum id (\<lambda>r'. incCompleted (incTotal r')) (groupByAssignee p d r)"
  by (simp add: groupByAssignee_def Let_def incTotal_def incCompleted_def)

lemma addIssue_counted:
  "addIssue pf now args ds (incCompleted (incTotal r)) x =
     map_sum id (\<lambda>r'. incCompleted (incTotal r')) (addIssue pf now args ds r x)"
  by (simp add: addIssue_def Let_def counters_commute pushCategories_counted
        groupByAssignee_counted)

lemma forEach_counted:
  "forEach (addIssue pf now args ds) xs (incCompleted (incTotal r)) =
     map_sum id (\<lambda>r'. incCompleted (incTotal r')) (forEach (addIssue pf now args ds) xs r)"
proof (induction xs arbitrary: r)
  case Nil
  then show ?case by simp
next
  case (Cons x xs)
  show ?case
    by (cases "addIssue pf now args ds r x") (simp_all add: addIssue_counted Cons.IH)
qed

lemma sortReport_counted:
  "sortReport pf (incCompleted (incTotal r)) = incCompleted (incTotal (sortReport pf r))"
  by (simp add: sortReport_def incTotal_def incCompleted_def)

lemma build_with_completed:
  assumes "\<not> filteredOut args i" and "issueStatusCategory i = completed"
  shows "buildStandupReport pf now args activeSprint (ys @ i # zs) =
           map_sum id (\<lambda>r. incCompleted (incTotal r))
             (buildStandupReport pf now args activeSprint (ys @ zs))"
proof (cases "forEach (addIssue pf now args (effectiveDaysStale args)) ys
                (initialReport pf now args activeSprint)")
  case (Inl e)
  then show ?thesis by (simp add: buildStandupReport_def forEach_append)
next
  case (Inr m)
  show ?thesis
    using assms
    by (cases "forEach (addIssue pf now args (effectiveDaysStale args)) zs m")
       (simp_all add: buildStandupReport_def forEach_append Inr addIssue_completed
          forEach_counted sortReport_counted)
qed

lemma counted_record:
  "incCompleted (incTotal r) =
     r\<lparr> sprintSummary := (sprintSummary r)
         \<lparr> totalSprintIssues := totalSprintIssues (sprintSummary r) + 1,
           completedIssues := completedIssues (sprintSummary r) + 1 \<rparr> \<rparr>"
  by (simp add: incCompleted_def incTotal_def)

text \<open>
  C2. An issue whose status classifies as completed (its status text is, in any letter case,
  done, closed or resolved) has an empty set of categories. When the project filter lets it
  through, its step of the builder leaves the four category lists and the assignee buckets, with
  their stale and overdue counts, as they were and adds one to \<open>totalSprintIssues\<close> and to
  \<open>completedIssues\<close>; and so does its presence in the sprint: the report built from a list of
  issues with it, at any position, is the report built from the list without it, with one more
  in \<open>totalSprintIssues\<close> and in \<open>completedIssues\<close> and nothing else changed (a build that throws
  without it throws the same with it). Its issue data is in none of the four lists and in no
  assignee bucket of a built report.
\<close>

theorem completed_issue_only_counted:
  assumes "issueStatusCategory i = completed"
  shows "categories (processIssue pf now i b ds) = []
       \<and> (\<not> filteredOut args i \<longrightarrow>
            addIssue pf now args ds r i =
              Inr (r\<lparr> sprintSummary := (sprintSummary r)
                     \<lparr> totalSprintIssues := totalSprintIssues (sprintSummary r) + 1,
                       completedIssues := completedIssues (sprintSummary r) + 1 \<rparr> \<rparr>))
       \<and> (\<forall>report. buildStandupReport pf now args activeSprint xs = Inr report \<longrightarrow>
            IssueData.truncate (processIssue pf now i (baseUrl pf) (effectiveDaysStale args))
              \<notin> set (reportEntries report))
       \<and> (\<not> filteredOut args i \<longrightarrow>
            buildStandupReport pf now args activeSprint (ys @ i # zs) =
              (case buildStandupReport pf now args activeSprint (ys @ zs) of
                 Inl e \<Rightarrow> Inl e
               | Inr report0 \<Rightarrow>
                   Inr (report0\<lparr> sprintSummary := (sprintSummary report0)
                          \<lparr> totalSprintIssues :=
                              totalSprintIssues (sprintSummary report0) + 1,
                            completedIssues :=
                              completedIssues (sprintSummary report0) + 1 \<rparr> \<rparr>)))"
proof (intro conjI allI impI)
  show "categories (processIssue pf now i b ds) = []"
    using assms by (simp add: processIssue_categories_completed issueStatusCategory_def)
next
  assume "\<not> filteredOut args i"
  with assms show "addIssue pf now args ds r i =
      Inr (r\<lparr> sprintSummary := (sprintSummary r)
             \<lparr> totalSprintIssues := totalSprintIssues (sprintSummary r) + 1,
               completedIssues := completedIssues (sprintSummary r) + 1 \<rparr> \<rparr>)"
    by (simp add: addIssue_completed incCompleted_def incTotal_def)
next
  fix report
  assume "buildStandupReport pf now args activeSprint xs = Inr report"
  then obtain r' where
    fe: "forEach (addIssue pf now args (effectiveDaysStale args)) xs
           (initialReport pf now args activeSprint) = Inr r'"
    and rep: "report = sortReport pf r'"
    by (rule buildStandupReport_Inr)
  have "\<forall>d\<in>set (reportEntries r'). categorizeStatus (status d) \<noteq> completed"
    by (rule built_entries_open[OF fe]) (simp add: initialReport_def reportEntries_def)
  then have "\<forall>d\<in>set (reportEntries report). categorizeStatus (status d) \<noteq> completed"
    by (simp add: rep reportEntries_sortReport)
  moreover have "categorizeStatus (status (IssueData.truncate
      (processIssue pf now i (baseUrl pf) (effectiveDaysStale args)))) = completed"
    using assms by (simp add: processIssue_status issueStatusCategory_def)
  ultimately show "IssueData.truncate
      (processIssue pf now i (baseUrl pf) (effectiveDaysStale args)) \<notin> set (reportEntries report)"
    by auto
next
  assume k: "\<not> filteredOut args i"
  show "buildStandupReport pf now args activeSprint (ys @ i # zs) =
          (case buildStandupReport pf now args activeSprint (ys @ zs) of
             Inl e \<Rightarrow> Inl e
           | Inr report0 \<Rightarrow>
               Inr (report0\<lparr> sprintSummary := (sprintSummary report0)
                      \<lparr> totalSprintIssues := totalSprintIssues (sprintSummary report0) + 1,
                        completedIssues := completedIssues (sprintSummary report0) + 1 \<rparr> \<rparr>))"
    unfolding build_with_completed[OF k assms]
    by (cases "buildStandupReport pf now args activeSprint (ys @ zs)")
       (simp_all add: counted_record)
qed


lemma map_sum_InrE:
  assumes "map_sum f g x = Inr v"
  obtains r where "x = Inr r" and "g r = v"
  using assms by (cases x) auto

lemma example_done_completed: "issueStatusCategory issueDone = completed"
  by code_simp

lemma example_done_kept: "\<not> filteredOut exampleArgsWEB issueDone"
  by code_simp

lemma example_report_without_done:
  "map_sum (\<lambda>e. ())
     (\<lambda>r. (totalSprintIssues (sprintSummary r), completedIssues (sprintSummary r),
           map key (reportEntries r)))
     (buildStandupReport examplePlatform exampleNow exampleArgsWEB sprint42
        [issueInProgress, issueTodo, issueReview]) =
   Inr (2, 0, [''WEB-2'', ''WEB-2'', ''WEB-3'', ''WEB-2'', ''WEB-3''])"
  by code_simp

theorem completed_issue_only_counted_witness:
  "issueStatusCategory issueDone = completed
   \<and> \<not> filteredOut exampleArgsWEB issueDone
   \<and> categories (processIssue examplePlatform exampleNow issueDone ''https://jira.example'' 2)
       = []
   \<and> map_sum (\<lambda>e. ()) (\<lambda>r. (reportEntries r, totalSprintIssues (sprintSummary r),
                              completedIssues (sprintSummary r)))
       (addIssue examplePlatform exampleNow exampleArgsWEB 2
          (initialReport examplePlatform exampleNow exampleArgsWEB sprint42) issueDone)
       = Inr ([], 1, 1)
   \<and> (\<exists>report report0.
        buildStandupReport examplePlatform exampleNow exampleArgsWEB sprint42 exampleIssues
          = Inr report
        \<and> buildStandupReport examplePlatform exampleNow exampleArgsWEB sprint42
            [issueInProgress, issueTodo, issueReview] = Inr report0
        \<and> totalSprintIssues (sprintSummary report0) = 2
        \<and> completedIssues (sprintSummary report0) = 0
        \<and> totalSprintIssues (sprintSummary report) = 3
        \<and> completedIssues (sprintSummary report) = 1
        \<and> reportEntries report = reportEntries report0
        \<and> map key (reportEntries report) = [''WEB-2'', ''WEB-2'', ''WEB-3'', ''WEB-2'', ''WEB-3'']
        \<and> IssueData.truncate
            (processIssue examplePlatform exampleNow issueDone (baseUrl examplePlatform)
               (effectiveDaysStale exampleArgsWEB))
          \<notin> set (reportEntries report))"
proof -
  note t = completed_issue_only_counted[OF example_done_completed,
      where pf = examplePlatform and now = exampleNow and args = exampleArgsWEB
        and activeSprint = sprint42 and xs = exampleIssues and ys = "[]"
        and zs = "[issueInProgress, issueTodo, issueReview]"]
  from example_report_without_done obtain report0 where
    b0: "buildStandupReport examplePlatform exampleNow exampleArgsWEB sprint42
           [issueInProgress, issueTodo, issueReview] = Inr report0"
    and v0: "(totalSprintIssues (sprintSummary report0), completedIssues (sprintSummary report0),
              map key (reportEntries report0)) =
             (2, 0, [''WEB-2'', ''WEB-2'', ''WEB-3'', ''WEB-2'', ''WEB-3''])"
    by (rule map_sum_InrE)
  let ?report = "report0\<lparr> sprintSummary := (sprintSummary report0)
                   \<lparr> totalSprintIssues := totalSprintIssues (sprintSummary report0) + 1,
                     completedIssues := completedIssues (sprintSummary report0) + 1 \<rparr> \<rparr>"
  have "buildStandupReport examplePlatform exampleNow exampleArgsWEB sprint42
          ([] @ issueDone # [issueInProgress, issueTodo, issueReview]) =
        (case buildStandupReport examplePlatform exampleNow exampleArgsWEB sprint42
                ([] @ [issueInProgress, issueTodo, issueReview]) of
           Inl e \<Rightarrow> Inl e
         | Inr report0 \<Rightarrow>
             Inr (report0\<lparr> sprintSummary := (sprintSummary report0)
                    \<lparr> totalSprintIssues := totalSprintIssues (sprintSummary report0) + 1,
                      completedIssues := completedIssues (sprintSummary report0) + 1 \<rparr> \<rparr>))"
    using t example_done_kept by blast
  then have b: "buildStandupReport examplePlatform exampleNow exampleArgsWEB sprint42
                  exampleIssues = Inr ?report"
    by (simp add: b0 exampleIssues_def)
  have step: "addIssue examplePlatform exampleNow exampleArgsWEB 2
                (initialReport examplePlatform exampleNow exampleArgsWEB sprint42) issueDone =
              Inr ((initialReport examplePlatform exampleNow exampleArgsWEB sprint42)
                \<lparr> sprintSummary :=
                    (sprintSummary (initialReport examplePlatform exampleNow exampleArgsWEB sprint42))
                    \<lparr> totalSprintIssues := totalSprintIssues (sprintSummary
                         (initialReport examplePlatform exampleNow exampleArgsWEB sprint42)) + 1,
                      completedIssues := completedIssues (sprintSummary
                         (initialReport examplePlatform exampleNow exampleArgsWEB sprint42)) + 1 \<rparr> \<rparr>)"
    using t[where ds = 2] example_done_kept by blast
  have c: "categories (processIssue examplePlatform exampleNow issueDone ''https://jira.example'' 2)
          = []"
    using t[where b = "''https://jira.example''" and ds = 2] by blast
  have n: "IssueData.truncate
            (processIssue examplePlatform exampleNow issueDone (baseUrl examplePlatform)
               (effectiveDaysStale exampleArgsWEB))
          \<notin> set (reportEntries ?report)"
    using t b by blast
  have m: "map_sum (\<lambda>e. ()) (\<lambda>r. (reportEntries r, totalSprintIssues (sprintSummary r),
                              completedIssues (sprintSummary r)))
       (addIssue examplePlatform exampleNow exampleArgsWEB 2
          (initialReport examplePlatform exampleNow exampleArgsWEB sprint42) issueDone)
       = Inr ([], 1, 1)"
    unfolding step by (simp add: initialReport_def reportEntries_def)
  have e: "reportEntries ?report = reportEntries report0"
    by (simp add: reportEntries_def)
  have al: "buildStandupReport examplePlatform exampleNow exampleArgsWEB sprint42 exampleIssues
          = Inr ?report
        \<and> buildStandupReport examplePlatform exampleNow exampleArgsWEB sprint42
            [issueInProgress, issueTodo, issueReview] = Inr report0
        \<and> totalSprintIssues (sprintSummary report0) = 2
        \<and> completedIssues (sprintSummary report0) = 0
        \<and> totalSprintIssues (sprintSummary ?report) = 3
        \<and> completedIssues (sprintSummary ?report) = 1
        \<and> reportEntries ?report = reportEntries report0
        \<and> map key (reportEntries ?report) = [''WEB-2'', ''WEB-2'', ''WEB-3'', ''WEB-2'', ''WEB-3'']
        \<and> IssueData.truncate
            (processIssue examplePlatform exampleNow issueDone (baseUrl examplePlatform)
               (effectiveDaysStale exampleArgsWEB))
          \<notin> set (reportEntries ?report)"
    using b b0 v0 n e by simp
  have ex: "\<exists>report report0.
        buildStandupReport examplePlatform exampleNow exampleArgsWEB sprint42 exampleIssues
          = Inr report
        \<and> buildStandupReport examplePlatform exampleNow exampleArgsWEB sprint42
            [issueInProgress, issueTodo, issueReview] = Inr report0
        \<and> totalSprintIssues (sprintSummary report0) = 2
        \<and> completedIssues (sprintSummary report0) = 0
        \<and> totalSprintIssues (sprintSummary report) = 3
        \<and> completedIssues (sprintSummary report) = 1
        \<and> reportEntries report = reportEntries report0
        \<and> map key (reportEntries report) = [''WEB-2'', ''WEB-2'', ''WEB-3'', ''WEB-2'', ''WEB-3'']
        \<and> IssueData.truncate
            (processIssue examplePlatform exampleNow issueDone (baseUrl examplePlatform)
               (effectiveDaysStale exampleArgsWEB))
          \<notin> set (reportEntries report)"
    by (rule exI[of _ ?report], rule exI[of _ report0]) (rule al)
  show ?thesis
    by (intro conjI example_done_completed example_done_kept c m ex)
qed

section \<open>The sorted lists of a report\<close>


lemma addIssue_open:
  assumes "\<not> filteredOut args i" and "issueStatusCategory i \<noteq> completed"
  shows "addIssue pf now args ds r i =
           groupByAssignee (processIssue pf now i (baseUrl pf) ds)
             (IssueData.truncate (processIssue pf now i (baseUrl pf) ds))
             (pushCategories (categories (processIssue pf now i (baseUrl pf) ds))
                (IssueData.truncate (processIssue pf now i (baseUrl pf) ds))
                (if issueStatusCategory i = inProgress then incInProgress (incTotal r)
                 else incTodo (incTotal r)))"
  using assms by (simp add: addIssue_def Let_def processIssue_status issueStatusCategory_def)

lemma stale_has_days:
  "stale \<in> set (categories (processIssue pf now i b ds))
     \<Longrightarrow> daysSinceUpdate (processIssue pf now i b ds) \<noteq> NaN"
  by (auto simp: processIssue_def Let_def computeCategories_def
           split: if_splits number.splits option.splits)

lemma overdue_has_due:
  "overdue \<in> set (categories (processIssue pf now i b ds))
     \<Longrightarrow> \<exists>s. duedate (processIssue pf now i b ds) = Some s \<and> s \<noteq> []
            \<and> orNull (fields_duedate i) = Some s"
  by (auto simp: processIssue_def Let_def computeCategories_def orNull_def
           split: if_splits number.splits option.splits)

lemma staleIssues_counters [simp]:
  "staleIssues (incTotal r) = staleIssues r" "staleIssues (incCompleted r) = staleIssues r"
  "staleIssues (incInProgress r) = staleIssues r" "staleIssues (incTodo r) = staleIssues r"
  "overdueIssues (incTotal r) = overdueIssues r" "overdueIssues (incCompleted r) = overdueIssues r"
  "overdueIssues (incInProgress r) = overdueIssues r" "overdueIssues (incTodo r) = overdueIssues r"
  by (simp_all add: incTotal_def incCompleted_def incInProgress_def incTodo_def)

lemma addIssue_staleIssues:
  assumes "addIssue pf now args ds r i = Inr r'"
  shows "set (staleIssues r') \<subseteq> set (staleIssues r) \<union> {d. daysSinceUpdate d \<noteq> NaN}"
proof (cases "filteredOut args i \<or> issueStatusCategory i = completed")
  case True
  then have "r' = r \<or> r' = incCompleted (incTotal r)"
    using assms addIssue_filteredOut[of args i pf now ds r]
      addIssue_completed[of args i pf now ds r] by (cases "filteredOut args i") auto
  then show ?thesis by auto
next
  case False
  with assms show ?thesis
    using stale_has_days[of pf now i "baseUrl pf" ds]
    by (auto simp: addIssue_open pushCategories_def dest!: groupByAssignee_lists(1)
             split: if_splits)
qed

lemma addIssue_overdueIssues:
  assumes "addIssue pf now args ds r i = Inr r'"
  shows "set (overdueIssues r') \<subseteq> set (overdueIssues r)
           \<union> {d. \<exists>s. duedate d = Some s \<and> s \<noteq> [] \<and> orNull (fields_duedate i) = Some s}"
proof (cases "filteredOut args i \<or> issueStatusCategory i = completed")
  case True
  then have "r' = r \<or> r' = incCompleted (incTotal r)"
    using assms addIssue_filteredOut[of args i pf now ds r]
      addIssue_completed[of args i pf now ds r] by (cases "filteredOut args i") auto
  then show ?thesis by auto
next
  case False
  with assms show ?thesis
    using overdue_has_due[of pf now i "baseUrl pf" ds]
    by (auto simp: addIssue_open pushCategories_def dest!: groupByAssignee_lists(2)
             split: if_splits)
qed

lemma dueDates_mem:
  "i \<in> set xs \<Longrightarrow> orNull (fields_duedate i) = Some s \<Longrightarrow> s \<in> set (dueDates xs)"
  by (force simp: dueDates_def)

lemma dueKey_Some: "duedate d = Some s \<Longrightarrow> s \<noteq> [] \<Longrightarrow> dueKey d = s"
  by (simp add: dueKey_def orElse_def)

lemma built_stale_have_days:
  assumes "forEach (addIssue pf now args ds) xs r0 = Inr r"
    and "\<forall>d\<in>set (staleIssues r0). daysSinceUpdate d \<noteq> NaN"
  shows "\<forall>d\<in>set (staleIssues r). daysSinceUpdate d \<noteq> NaN"
  using assms(1,2)
proof (rule forEach_invariant_mem)
  fix a x b
  assume "\<forall>d\<in>set (staleIssues a). daysSinceUpdate d \<noteq> NaN"
    and "addIssue pf now args ds a x = Inr b"
  then show "\<forall>d\<in>set (staleIssues b). daysSinceUpdate d \<noteq> NaN"
    using addIssue_staleIssues[of pf now args ds a x b] by auto
qed

lemma built_overdue_have_due:
  assumes "forEach (addIssue pf now args ds) xs r0 = Inr r"
    and "\<forall>d\<in>set (overdueIssues r0).
           \<exists>s. duedate d = Some s \<and> s \<noteq> [] \<and> s \<in> set (dueDates xs)"
  shows "\<forall>d\<in>set (overdueIssues r).
           \<exists>s. duedate d = Some s \<and> s \<noteq> [] \<and> s \<in> set (dueDates xs)"
  using assms(1,2)
proof (rule forEach_invariant_mem)
  fix a x b
  assume x: "x \<in> set xs"
    and a: "\<forall>d\<in>set (overdueIssues a).
              \<exists>s. duedate d = Some s \<and> s \<noteq> [] \<and> s \<in> set (dueDates xs)"
    and s: "addIssue pf now args ds a x = Inr b"
  show "\<forall>d\<in>set (overdueIssues b).
          \<exists>s. duedate d = Some s \<and> s \<noteq> [] \<and> s \<in> set (dueDates xs)"
  proof
    fix d assume "d \<in> set (overdueIssues b)"
    with addIssue_overdueIssues[OF s] consider "d \<in> set (overdueIssues a)"
      | s' where "duedate d = Some s'" "s' \<noteq> []" "orNull (fields_duedate x) = Some s'"
      by auto
    then show "\<exists>s. duedate d = Some s \<and> s \<noteq> [] \<and> s \<in> set (dueDates xs)"
    proof cases
      case 1
      with a show ?thesis by auto
    next
      case 2
      with x show ?thesis by (auto simp: dueDates_mem)
    qed
  qed
qed

lemma compareStale_le:
  "daysSinceUpdate a \<noteq> NaN \<Longrightarrow> daysSinceUpdate b \<noteq> NaN
     \<Longrightarrow> (compareStale a b \<le> 0) = numberGe (daysSinceUpdate a) (daysSinceUpdate b)"
  by (auto simp: compareStale_def numberGe_def split: number.splits)


text \<open>
  C4. In every built report \<open>staleIssues\<close> is sorted descending by \<open>daysSinceUpdate\<close>: each
  entry has at least the days of every later one, and so of the next one. Every entry of
  \<open>overdueIssues\<close> has a due date, a non-empty text among the due dates of the sprint, so the
  key \<open>''\<close> of an absent due date never takes part in the sort. \<open>overdueIssues\<close> is sorted
  ascending by due date in the collation of the platform, \<open>localeCompare\<close>, when that is a
  consistent comparator on the due dates of the sprint; it is sorted in the order of the code
  units, the plain lexicographic order, where the collation agrees with that order on the due
  dates of the sprint, as it does on ISO dates.
\<close>

theorem standup_lists_sorted:
  assumes "buildStandupReport pf now args activeSprint xs = Inr report"
  shows "sorted_wrt (\<lambda>a b. numberGe (daysSinceUpdate a) (daysSinceUpdate b))
           (staleIssues report)
       \<and> (\<forall>i. Suc i < length (staleIssues report) \<longrightarrow>
              numberGe (daysSinceUpdate (staleIssues report ! i))
                (daysSinceUpdate (staleIssues report ! Suc i)))
       \<and> (\<forall>d\<in>set (overdueIssues report).
              \<exists>s. duedate d = Some s \<and> s \<noteq> [] \<and> s \<in> set (dueDates xs))
       \<and> (consistentCollation pf (dueDates xs) \<longrightarrow>
            sorted_wrt (\<lambda>a b. localeCompare pf (dueKey a) (dueKey b) \<le> 0)
              (overdueIssues report))
       \<and> (collatesByCodeUnits pf (dueDates xs) \<longrightarrow>
            sorted_wrt (\<lambda>a b. dueKey a \<le> dueKey b) (overdueIssues report)
            \<and> (\<forall>i. Suc i < length (overdueIssues report) \<longrightarrow>
                  dueKey (overdueIssues report ! i) \<le> dueKey (overdueIssues report ! Suc i)))"
proof -
  from assms obtain r where
    fe: "forEach (addIssue pf now args (effectiveDaysStale args)) xs
           (initialReport pf now args activeSprint) = Inr r"
    and rep: "report = sortReport pf r"
    by (rule buildStandupReport_Inr)
  let ?S = "\<lambda>a b. numberGe (daysSinceUpdate a) (daysSinceUpdate b)"
  let ?D = "\<lambda>a b. dueKey a \<le> dueKey b"
  let ?L = "\<lambda>a b. localeCompare pf (dueKey a) (dueKey b) \<le> 0"
  let ?A = "{d. dueKey d \<in> set (dueDates xs)}"
  have days: "\<forall>d\<in>set (staleIssues r). daysSinceUpdate d \<noteq> NaN"
    by (rule built_stale_have_days[OF fe]) (simp add: initialReport_def)
  have due: "\<forall>d\<in>set (overdueIssues r).
               \<exists>s. duedate d = Some s \<and> s \<noteq> [] \<and> s \<in> set (dueDates xs)"
    by (rule built_overdue_have_due[OF fe]) (simp add: initialReport_def)
  have keys: "set (overdueIssues r) \<subseteq> ?A"
    using due by (auto simp: dueKey_Some)
  have st: "sorted_wrt ?S (sortBy compareStale (staleIssues r))"
  proof (rule sorted_wrt_sortBy[where A = "{d. daysSinceUpdate d \<noteq> NaN}"])
    show "set (staleIssues r) \<subseteq> {d. daysSinceUpdate d \<noteq> NaN}" using days by auto
  qed (auto simp: compareStale_le numberGe_def split: number.splits)
  have od: "sorted_wrt ?D (sortBy (compareDue pf) (overdueIssues r))"
    if c: "collatesByCodeUnits pf (dueDates xs)"
  proof (rule sorted_wrt_sortBy[where A = ?A])
    show "set (overdueIssues r) \<subseteq> ?A" by (rule keys)
    show "(compareDue pf a b \<le> 0) = (dueKey a \<le> dueKey b)" if "a \<in> ?A" "b \<in> ?A" for a b
      using that c by (simp add: compareDue_def dueKey_def collatesByCodeUnits_def)
  qed auto
  have ol: "sorted_wrt ?L (sortBy (compareDue pf) (overdueIssues r))"
    if c: "consistentCollation pf (dueDates xs)"
  proof (rule sorted_wrt_sortBy[where A = ?A])
    show "set (overdueIssues r) \<subseteq> ?A" by (rule keys)
    show "(compareDue pf a b \<le> 0) = (localeCompare pf (dueKey a) (dueKey b) \<le> 0)" for a b
      by (simp add: compareDue_def dueKey_def)
    show "localeCompare pf (dueKey a) (dueKey b) \<le> 0
          \<or> localeCompare pf (dueKey b) (dueKey a) \<le> 0" if "a \<in> ?A" "b \<in> ?A" for a b
    proof -
      from that have "dueKey a \<in> set (dueDates xs)" "dueKey b \<in> set (dueDates xs)"
        by simp_all
      with c show ?thesis unfolding consistentCollation_def by blast
    qed
    show "localeCompare pf (dueKey a) (dueKey c') \<le> 0"
      if "a \<in> ?A" "b \<in> ?A" "c' \<in> ?A" "localeCompare pf (dueKey a) (dueKey b) \<le> 0"
        "localeCompare pf (dueKey b) (dueKey c') \<le> 0" for a b c'
    proof -
      from that(1-3) have "dueKey a \<in> set (dueDates xs)" "dueKey b \<in> set (dueDates xs)"
        "dueKey c' \<in> set (dueDates xs)"
        by simp_all
      with c that(4,5) show ?thesis unfolding consistentCollation_def by blast
    qed
  qed
  have adj: "\<forall>i. Suc i < length ys \<longrightarrow> R (ys ! i) (ys ! Suc i)" if "sorted_wrt R ys"
    for R :: "IssueData \<Rightarrow> IssueData \<Rightarrow> bool" and ys
    using that by (auto simp: sorted_wrt_iff_nth_less)
  have od_adj: "\<forall>i. Suc i < length (sortBy (compareDue pf) (overdueIssues r)) \<longrightarrow>
                  dueKey (sortBy (compareDue pf) (overdueIssues r) ! i)
                    \<le> dueKey (sortBy (compareDue pf) (overdueIssues r) ! Suc i)"
    if c: "collatesByCodeUnits pf (dueDates xs)"
    using adj[OF od[OF c]] .
  have due': "\<forall>d\<in>set (sortBy (compareDue pf) (overdueIssues r)).
                \<exists>s. duedate d = Some s \<and> s \<noteq> [] \<and> s \<in> set (dueDates xs)"
    using due by (simp add: set_sortBy)
  from st od ol od_adj adj[OF st] due' show ?thesis
    unfolding rep sortReport_def by simp
qed

lemma example_sorted_lists:
  "map_sum (\<lambda>e. ())
     (\<lambda>r. (map key (staleIssues r), map daysSinceUpdate (staleIssues r),
           map key (overdueIssues r), map duedate (overdueIssues r)))
     (buildStandupReport examplePlatform exampleNow exampleArgs sprint42 exampleIssues) =
   Inr ([''OPS-4'', ''WEB-2''], [Number 10, Number 5],
        [''OPS-4'', ''WEB-2''], [Some ''2024-03-04'', Some ''2024-03-10''])"
  by code_simp

lemma example_collation: "collatesByCodeUnits examplePlatform (dueDates exampleIssues)"
  by code_simp

lemma example_consistent: "consistentCollation examplePlatform (dueDates exampleIssues)"
  by code_simp

theorem standup_lists_sorted_witness:
  "\<exists>report.
     buildStandupReport examplePlatform exampleNow exampleArgs sprint42 exampleIssues = Inr report
   \<and> collatesByCodeUnits examplePlatform (dueDates exampleIssues)
   \<and> consistentCollation examplePlatform (dueDates exampleIssues)
   \<and> map key (staleIssues report) = [''OPS-4'', ''WEB-2'']
   \<and> map daysSinceUpdate (staleIssues report) = [Number 10, Number 5]
   \<and> sorted_wrt (\<lambda>a b. numberGe (daysSinceUpdate a) (daysSinceUpdate b)) (staleIssues report)
   \<and> map duedate (overdueIssues report) = [Some ''2024-03-04'', Some ''2024-03-10'']
   \<and> sorted_wrt (\<lambda>a b. localeCompare examplePlatform (dueKey a) (dueKey b) \<le> 0)
       (overdueIssues report)
   \<and> sorted_wrt (\<lambda>a b. dueKey a \<le> dueKey b) (overdueIssues report)"
proof -
  from example_sorted_lists obtain report where
    b: "buildStandupReport examplePlatform exampleNow exampleArgs sprint42 exampleIssues
          = Inr report"
    and v: "(map key (staleIssues report), map daysSinceUpdate (staleIssues report),
             map key (overdueIssues report), map duedate (overdueIssues report)) =
            ([''OPS-4'', ''WEB-2''], [Number 10, Number 5],
             [''OPS-4'', ''WEB-2''], [Some ''2024-03-04'', Some ''2024-03-10''])"
    by (rule map_sum_InrE)
  from standup_lists_sorted[OF b] example_collation example_consistent b v show ?thesis
    by auto
qed

text \<open>
  On a platform whose collation is not the order of the code units the overdue list is not in
  plain lexicographic order: the three issues due \<open>Mar 1 2024\<close>, \<open>feb 1 2024\<close> and
  \<open>2024-03-04\<close> are listed with \<open>feb 1 2024\<close> before \<open>Mar 1 2024\<close>, and \<open>M\<close> is the smaller code
  unit.
\<close>

lemma example_text_due_dates:
  "map_sum (\<lambda>e. ())
     (\<lambda>r. (map key (overdueIssues r), map dueKey (overdueIssues r),
           sorted_wrt (\<lambda>a b. dueKey a \<le> dueKey b) (overdueIssues r),
           dueKey (overdueIssues r ! 1) \<le> dueKey (overdueIssues r ! 2)))
     (buildStandupReport localePlatform exampleNow exampleArgs sprint42 textDueIssues) =
   Inr ([''WEB-13'', ''WEB-12'', ''WEB-11''], [''2024-03-04'', ''feb 1 2024'', ''Mar 1 2024''],
        False, False)"
  by code_simp

theorem standup_overdue_not_lexicographic:
  "\<exists>report.
     buildStandupReport localePlatform exampleNow exampleArgs sprint42 textDueIssues = Inr report
   \<and> map key (overdueIssues report) = [''WEB-13'', ''WEB-12'', ''WEB-11'']
   \<and> map dueKey (overdueIssues report) = [''2024-03-04'', ''feb 1 2024'', ''Mar 1 2024'']
   \<and> \<not> sorted_wrt (\<lambda>a b. dueKey a \<le> dueKey b) (overdueIssues report)
   \<and> \<not> dueKey (overdueIssues report ! 1) \<le> dueKey (overdueIssues report ! 2)"
proof -
  from example_text_due_dates obtain report where
    b: "buildStandupReport localePlatform exampleNow exampleArgs sprint42 textDueIssues
          = Inr report"
    and v: "(map key (overdueIssues report), map dueKey (overdueIssues report),
             sorted_wrt (\<lambda>a b. dueKey a \<le> dueKey b) (overdueIssues report),
             dueKey (overdueIssues report ! 1) \<le> dueKey (overdueIssues report ! 2)) =
            ([''WEB-13'', ''WEB-12'', ''WEB-11''],
             [''2024-03-04'', ''feb 1 2024'', ''Mar 1 2024''], False, False)"
    by (rule map_sum_InrE)
  from b v show ?thesis by simp
qed


section \<open>The cached standup report\<close>



lemma getFullKey_cache_set [simp]:
  "getFullKey (cache_set c now k v ttl) k' = getFullKey c k'"
  by (simp add: cache_set_def Let_def getFullKey_def evictOldest_def
           split: option.splits prod.splits)



lemma standupKey_ignores_daysStale:
  "CacheKeys_standupReport (boardId (a\<lparr> daysStale := d, includeUnassigned := u \<rparr>))
       (projectKey (a\<lparr> daysStale := d, includeUnassigned := u \<rparr>))
     = CacheKeys_standupReport (boardId a) (projectKey a)"
  by simp


text \<open>The keys of sprints, of issue lists and of reports never coincide.\<close>

lemma cache_keys_disjoint:
  "CacheKeys_sprint b \<noteq> CacheKeys_sprintIssues sid"
  "CacheKeys_sprint b \<noteq> CacheKeys_standupReport b' p"
  "CacheKeys_sprintIssues sid \<noteq> CacheKeys_standupReport b' p"
  by (simp_all add: CacheKeys_sprint_def CacheKeys_sprintIssues_def CacheKeys_standupReport_def
        split: option.splits)






section \<open>The unread argument\<close>

lemma filteredOut_includeUnassigned [simp]:
  "filteredOut (a\<lparr> includeUnassigned := u \<rparr>) = filteredOut a"
  by (intro ext) (simp add: filteredOut_def)

lemma addIssue_includeUnassigned [simp]:
  "addIssue pf now (a\<lparr> includeUnassigned := u \<rparr>) = addIssue pf now a"
  by (intro ext) (simp add: addIssue_def)

lemma buildStandupReport_includeUnassigned [simp]:
  "buildStandupReport pf now (a\<lparr> includeUnassigned := u \<rparr>) = buildStandupReport pf now a"
  by (intro ext) (simp add: buildStandupReport_def effectiveDaysStale_def initialReport_def)

lemma standupReportFor_includeUnassigned:
  "standupReportFor pf up (a\<lparr> includeUnassigned := u \<rparr>) c w = standupReportFor pf up a c w"
  by (simp add: standupReportFor_def Let_def
           cong: option.case_cong prod.case_cong sum.case_cong)

lemma map_of_filter_key:
  "k' \<noteq> k \<Longrightarrow> map_of (filter (\<lambda>kv. fst kv \<noteq> k) kvs) k' = map_of kvs k'"
  by (induction kvs) auto

lemma validated_without_includeUnassigned:
  assumes "withoutKey ''includeUnassigned'' args1 = withoutKey ''includeUnassigned'' args2"
    and v1: "validateDailyStandupReport args1 = Inr v1"
    and v2: "validateDailyStandupReport args2 = Inr v2"
  shows "v1 = v2\<lparr> includeUnassigned := includeUnassigned v1 \<rparr>"
proof -
  from v1 obtain kvs1 where a1: "args1 = JObject kvs1"
    by (cases args1) (auto simp: validateDailyStandupReport_def)
  from v2 obtain kvs2 where a2: "args2 = JObject kvs2"
    by (cases args2) (auto simp: validateDailyStandupReport_def)
  from assms(1) have f: "filter (\<lambda>kv. fst kv \<noteq> ''includeUnassigned'') kvs1
                       = filter (\<lambda>kv. fst kv \<noteq> ''includeUnassigned'') kvs2"
    by (simp add: withoutKey_def a1 a2)
  have eq: "map_of kvs1 k = map_of kvs2 k" if "k \<noteq> ''includeUnassigned''" for k
    using map_of_filter_key[OF that, of kvs1] map_of_filter_key[OF that, of kvs2] f by simp
  have "map_of kvs1 ''boardId'' = map_of kvs2 ''boardId''"
    "map_of kvs1 ''projectKey'' = map_of kvs2 ''projectKey''"
    "map_of kvs1 ''daysStale'' = map_of kvs2 ''daysStale''"
    by (simp_all add: eq)
  with v1 v2 show ?thesis
    unfolding a1 a2 validateDailyStandupReport_def
    by (auto split: option.splits if_splits)
qed
lemma handleJiraTool_standup:
  "handleJiraTool pf isEmail up ''jira_daily_standup_report'' args c w =
     catchAll pf up ''jira_daily_standup_report'' (dailyStandupReport pf up args c w)"
  by (simp add: handleJiraTool_def toolBody_def)


text \<open>
  C10. \<open>includeUnassigned\<close> has no effect: two calls of \<open>jira_daily_standup_report\<close> whose
  arguments pass validation and are the same but for the key \<open>includeUnassigned\<close> give, on the
  same store, world and clock, the same response, the same store and the same world.
\<close>

theorem includeUnassigned_has_no_effect:
  assumes "withoutKey ''includeUnassigned'' args1 = withoutKey ''includeUnassigned'' args2"
    and "validateDailyStandupReport args1 = Inr v1"
    and "validateDailyStandupReport args2 = Inr v2"
  shows "handleJiraTool pf isEmail up ''jira_daily_standup_report'' args1 c w =
           handleJiraTool pf isEmail up ''jira_daily_standup_report'' args2 c w"
proof -
  from validated_without_includeUnassigned[OF assms]
  have "v1 = v2\<lparr> includeUnassigned := includeUnassigned v1 \<rparr>" .
  then have "standupReportFor pf up v1 c w = standupReportFor pf up v2 c w"
    using standupReportFor_includeUnassigned[where a = v2 and u = "includeUnassigned v1"] by metis
  then show ?thesis
    by (simp add: handleJiraTool_standup dailyStandupReport_def assms(2,3))
qed

lemma example_call_unassigned:
  "map_option (\<lambda>(resp, c, w).
       (map (\<lambda>p. case p of ReportJSON r \<Rightarrow> map key (unassignedIssues r) | _ \<Rightarrow> [])
          (content resp), requests w))
     (handleJiraTool examplePlatform (\<lambda>s. True) (exampleUpstream exampleIssues)
        ''jira_daily_standup_report'' (standupCall [(''includeUnassigned'', JBool False)])
        sprintCache exampleWorld)
   = Some ([[''WEB-3'']], [''sprints'', ''issues from 0''])"
  by code_simp

lemma example_calls_valid:
  "withoutKey ''includeUnassigned'' (standupCall [(''includeUnassigned'', JBool False)])
     = withoutKey ''includeUnassigned'' (standupCall [])"
  "validateDailyStandupReport (standupCall [(''includeUnassigned'', JBool False)])
     = Inr (exampleArgs\<lparr> daysStale := None, includeUnassigned := Some False \<rparr>)"
  "validateDailyStandupReport (standupCall []) = Inr (exampleArgs\<lparr> daysStale := None \<rparr>)"
  by code_simp+

theorem includeUnassigned_has_no_effect_witness:
  "withoutKey ''includeUnassigned'' (standupCall [(''includeUnassigned'', JBool False)])
     = withoutKey ''includeUnassigned'' (standupCall [])
   \<and> validateDailyStandupReport (standupCall [(''includeUnassigned'', JBool False)])
       = Inr (exampleArgs\<lparr> daysStale := None, includeUnassigned := Some False \<rparr>)
   \<and> validateDailyStandupReport (standupCall []) = Inr (exampleArgs\<lparr> daysStale := None \<rparr>)
   \<and> handleJiraTool examplePlatform (\<lambda>s. True) (exampleUpstream exampleIssues)
        ''jira_daily_standup_report'' (standupCall [(''includeUnassigned'', JBool False)])
        sprintCache exampleWorld
     = handleJiraTool examplePlatform (\<lambda>s. True) (exampleUpstream exampleIssues)
        ''jira_daily_standup_report'' (standupCall []) sprintCache exampleWorld
   \<and> map_option (\<lambda>(resp, c, w).
         map (\<lambda>p. case p of ReportJSON r \<Rightarrow> map key (unassignedIssues r) | _ \<Rightarrow> [])
           (content resp))
       (handleJiraTool examplePlatform (\<lambda>s. True) (exampleUpstream exampleIssues)
          ''jira_daily_standup_report'' (standupCall []) sprintCache exampleWorld)
     = Some [[''WEB-3'']]"
proof -
  note eq = includeUnassigned_has_no_effect[OF example_calls_valid,
      where pf = examplePlatform and isEmail = "\<lambda>s. True"
        and up = "exampleUpstream exampleIssues" and c = sprintCache and w = exampleWorld]
  from example_call_unassigned have
    "map_option (\<lambda>(resp, c, w).
         map (\<lambda>p. case p of ReportJSON r \<Rightarrow> map key (unassignedIssues r) | _ \<Rightarrow> [])
           (content resp))
       (handleJiraTool examplePlatform (\<lambda>s. True) (exampleUpstream exampleIssues)
          ''jira_daily_standup_report'' (standupCall [(''includeUnassigned'', JBool False)])
          sprintCache exampleWorld)
     = Some [[''WEB-3'']]"
    by (auto simp: map_option_case split: option.splits)
  with eq example_calls_valid show ?thesis by simp
qed


section \<open>The retry executor\<close>

lemma retryLoop_success:
  assumes "attempt \<le> maxA" and "operation w = (Inr v, w')"
  shows "retryLoop sl operation maxA maxD fac sr attempt delay lastError w = (Inr v, w')"
  using assms by (subst retryLoop.simps) simp

lemma retryLoop_failure:
  assumes "attempt \<le> maxA" and "operation w = (Inl e, w')"
  shows "retryLoop sl operation maxA maxD fac sr attempt delay lastError w =
           (if attempt = maxA \<or> \<not> sr e attempt then (Inl e, w')
            else retryLoop sl operation maxA maxD fac sr (attempt + 1)
                   (min (delay * fac) maxD) (Some e) (sl delay w'))"
  using assms by (subst retryLoop.simps) simp


text \<open>
  C6. With \<open>maxAttempts = 3\<close>: an operation that fails with retryable errors on attempts 1 and 2
  and returns on attempt 3 makes \<open>retry\<close> return that result; one that fails on all three
  attempts makes \<open>retry\<close> throw the third error. The second attempt starts after a suspension of
  the initial delay, the third after one of \<open>min (delay * factor) maxDelay\<close>. In general, for any
  options, \<open>retry\<close> is the loop from attempt 1 with the initial delay; a failed attempt throws
  its error at once when it is the last attempt or \<open>shouldRetry\<close> is false, and otherwise suspends
  for the delay and goes on with the delay \<open>min (delay * factor) maxDelay\<close>; an attempt that
  returns ends the loop.
\<close>

theorem retry_three_attempts:
  fixes operation :: "'w \<Rightarrow> (thrown + 'a) \<times> 'w"
  shows "(maxAttemptsOf options = 3
            \<and> operation w0 = (Inl e1, w1) \<and> shouldRetryOf options e1 1
            \<and> operation (sl (initialDelayOf options) w1) = (Inl e2, w2)
            \<and> shouldRetryOf options e2 2
            \<and> operation (sl (min (initialDelayOf options * factorOf options)
                                (maxDelayOf options)) w2) = (Inr v, w3)
          \<longrightarrow> retry sl operation options w0 = (Inr v, w3))
       \<and> (maxAttemptsOf options = 3
            \<and> operation w0 = (Inl e1, w1) \<and> shouldRetryOf options e1 1
            \<and> operation (sl (initialDelayOf options) w1) = (Inl e2, w2)
            \<and> shouldRetryOf options e2 2
            \<and> operation (sl (min (initialDelayOf options * factorOf options)
                                (maxDelayOf options)) w2) = (Inl e3, w3)
          \<longrightarrow> retry sl operation options w0 = (Inl e3, w3))
       \<and> (\<forall>attempt delay lastError w e w'.
            attempt \<le> maxAttemptsOf options \<and> operation w = (Inl e, w') \<longrightarrow>
            retryLoop sl operation (maxAttemptsOf options) (maxDelayOf options)
                (factorOf options) (shouldRetryOf options) attempt delay lastError w =
              (if attempt = maxAttemptsOf options \<or> \<not> shouldRetryOf options e attempt
               then (Inl e, w')
               else retryLoop sl operation (maxAttemptsOf options) (maxDelayOf options)
                      (factorOf options) (shouldRetryOf options) (attempt + 1)
                      (min (delay * factorOf options) (maxDelayOf options)) (Some e)
                      (sl delay w')))
       \<and> (\<forall>attempt delay lastError w v w'.
            attempt \<le> maxAttemptsOf options \<and> operation w = (Inr v, w') \<longrightarrow>
            retryLoop sl operation (maxAttemptsOf options) (maxDelayOf options)
                (factorOf options) (shouldRetryOf options) attempt delay lastError w =
              (Inr v, w'))
       \<and> retry sl operation options w0 =
           retryLoop sl operation (maxAttemptsOf options) (maxDelayOf options)
             (factorOf options) (shouldRetryOf options) 1 (initialDelayOf options) None w0"
  by (auto simp: retry_def retryLoop_success retryLoop_failure)

lemma example_flaky_twice:
  "flaky 2 exampleWorld =
     (Inl (projl (fst (flaky 2 exampleWorld))), snd (flaky 2 exampleWorld))
   \<and> shouldRetryOf retryThrice (projl (fst (flaky 2 exampleWorld))) 1
   \<and> flaky 2 (wait (initialDelayOf retryThrice) (snd (flaky 2 exampleWorld))) =
       (Inl (projl (fst (flaky 2 (wait 1000 (snd (flaky 2 exampleWorld)))))),
        snd (flaky 2 (wait 1000 (snd (flaky 2 exampleWorld)))))
   \<and> shouldRetryOf retryThrice
        (projl (fst (flaky 2 (wait 1000 (snd (flaky 2 exampleWorld)))))) 2
   \<and> flaky 2 (wait (min (initialDelayOf retryThrice * factorOf retryThrice)
                       (maxDelayOf retryThrice))
                 (snd (flaky 2 (wait 1000 (snd (flaky 2 exampleWorld)))))) =
       (Inr ''ok'',
        \<lparr> world_time = exampleNow + 3300,
          requests = [''attempt'', ''attempt'', ''attempt''] \<rparr>)"
  by code_simp

lemma example_flaky_thrice:
  "flaky 3 exampleWorld =
     (Inl (projl (fst (flaky 3 exampleWorld))), snd (flaky 3 exampleWorld))
   \<and> shouldRetryOf retryThrice (projl (fst (flaky 3 exampleWorld))) 1
   \<and> flaky 3 (wait (initialDelayOf retryThrice) (snd (flaky 3 exampleWorld))) =
       (Inl (projl (fst (flaky 3 (wait 1000 (snd (flaky 3 exampleWorld)))))),
        snd (flaky 3 (wait 1000 (snd (flaky 3 exampleWorld)))))
   \<and> shouldRetryOf retryThrice
        (projl (fst (flaky 3 (wait 1000 (snd (flaky 3 exampleWorld)))))) 2
   \<and> flaky 3 (wait (min (initialDelayOf retryThrice * factorOf retryThrice)
                       (maxDelayOf retryThrice))
                 (snd (flaky 3 (wait 1000 (snd (flaky 3 exampleWorld)))))) =
       (Inl (ThrownBase (fromAxiosError serviceUnavailable (exampleNow + 3200))),
        \<lparr> world_time = exampleNow + 3300,
          requests = [''attempt'', ''attempt'', ''attempt''] \<rparr>)"
  by code_simp

lemma example_three_attempts: "maxAttemptsOf retryThrice = 3"
  by code_simp

theorem retry_three_attempts_witness:
  "maxAttemptsOf retryThrice = 3
   \<and> retry wait (flaky 2) retryThrice exampleWorld =
       (Inr ''ok'',
        \<lparr> world_time = exampleNow + 3300,
          requests = [''attempt'', ''attempt'', ''attempt''] \<rparr>)
   \<and> retry wait (flaky 3) retryThrice exampleWorld =
       (Inl (ThrownBase (fromAxiosError serviceUnavailable (exampleNow + 3200))),
        \<lparr> world_time = exampleNow + 3300,
          requests = [''attempt'', ''attempt'', ''attempt''] \<rparr>)"
proof -
  note t = retry_three_attempts[where sl = wait and options = retryThrice]
  have "retry wait (flaky 2) retryThrice exampleWorld =
       (Inr ''ok'',
        \<lparr> world_time = exampleNow + 3300,
          requests = [''attempt'', ''attempt'', ''attempt''] \<rparr>)"
    by (rule t[THEN conjunct1, rule_format,
          OF conjI[OF example_three_attempts example_flaky_twice]])
  moreover have "retry wait (flaky 3) retryThrice exampleWorld =
       (Inl (ThrownBase (fromAxiosError serviceUnavailable (exampleNow + 3200))),
        \<lparr> world_time = exampleNow + 3300,
          requests = [''attempt'', ''attempt'', ''attempt''] \<rparr>)"
    by (rule t[THEN conjunct2, THEN conjunct1, rule_format,
          OF conjI[OF example_three_attempts example_flaky_thrice]])
  ultimately show ?thesis using example_three_attempts by simp
qed

text \<open>
  C7. The default \<open>shouldRetry\<close> is true exactly for an \<open>ApiError\<close> (or a subclass of it) whose
  status is 500 or more, whose status is 429, or whose code is the timeout classification; for
  a status from 400 to 499 other than 429 without that classification it is false. The
  classifier \<open>fromAxiosError\<close> gives the timeout classification to the statuses 408 and 504 and
  to no other, so of the errors it makes the retried ones are those with a status of 500 or
  more, 429 or 408; an error without a response is not retried.
\<close>

theorem default_shouldRetry:
  "defaultShouldRetry e attempt =
     (\<exists>b. e = ThrownBase b
          \<and> (errorClass b = ApiError \<or> errorClass b = JiraError \<or> errorClass b = SlackError)
          \<and> ((case statusCode b of None \<Rightarrow> 0 | Some s \<Rightarrow> s) \<ge> 500
             \<or> (case statusCode b of None \<Rightarrow> 0 | Some s \<Rightarrow> s) = 429
             \<or> code b = API_TIMEOUT))
   \<and> (\<forall>b s. e = ThrownBase b \<and> statusCode b = Some s \<and> 400 \<le> s \<and> s < 500 \<and> s \<noteq> 429
              \<and> code b \<noteq> API_TIMEOUT
          \<longrightarrow> \<not> defaultShouldRetry e attempt)
   \<and> (code (fromAxiosError err now) = API_TIMEOUT) =
       (response_status err = Some 408 \<or> response_status err = Some 504)
   \<and> defaultShouldRetry (ThrownBase (fromAxiosError err now)) attempt =
       (case response_status err of
          None \<Rightarrow> False
        | Some s \<Rightarrow> s \<ge> 500 \<or> s = 429 \<or> s = 408)"
  by (cases e)
     (auto simp: defaultShouldRetry_def instanceofApiError_def Let_def fromAxiosError_def
           split: option.splits)


lemma example_not_found:
  "statusCode (fromAxiosError (serviceUnavailable\<lparr> response_status := Some 404 \<rparr>) 0) = Some 404
   \<and> code (fromAxiosError (serviceUnavailable\<lparr> response_status := Some 404 \<rparr>) 0)
       \<noteq> API_TIMEOUT"
  by code_simp

theorem default_shouldRetry_witness:
  "\<not> defaultShouldRetry
       (ThrownBase (fromAxiosError (serviceUnavailable\<lparr> response_status := Some 404 \<rparr>) 0)) 1
   \<and> map (\<lambda>s. defaultShouldRetry
               (ThrownBase (fromAxiosError (serviceUnavailable\<lparr> response_status := s \<rparr>) 0)) 1)
       [None, Some 400, Some 401, Some 404, Some 408, Some 429, Some 499, Some 500, Some 503,
        Some 504]
     = [False, False, False, False, True, True, False, True, True, True]"
proof -
  note t = default_shouldRetry[
      where e = "ThrownBase (fromAxiosError (serviceUnavailable\<lparr> response_status := Some 404 \<rparr>) 0)"
        and attempt = 1]
  have "\<not> defaultShouldRetry
       (ThrownBase (fromAxiosError (serviceUnavailable\<lparr> response_status := Some 404 \<rparr>) 0)) 1"
    using t[THEN conjunct2, THEN conjunct1] example_not_found by simp
  moreover have "map (\<lambda>s. defaultShouldRetry
               (ThrownBase (fromAxiosError (serviceUnavailable\<lparr> response_status := s \<rparr>) 0)) 1)
       [None, Some 400, Some 401, Some 404, Some 408, Some 429, Some 499, Some 500, Some 503,
        Some 504]
     = [False, False, False, False, True, True, False, True, True, True]"
    by (simp add: t[THEN conjunct2, THEN conjunct2, THEN conjunct2])
  ultimately show ?thesis by simp
qed


section \<open>Paging through the issues of a sprint\<close>

lemma retry_success:
  assumes "operation w = (Inr v, w')" and "1 \<le> maxAttemptsOf options"
  shows "retry sl operation options w = (Inr v, w')"
  using assms by (simp add: retry_def retryLoop_success)

lemma intercepted_success:
  "request w = (Inr v, w') \<Longrightarrow> intercepted up request w = (Inr v, w')"
  by (simp add: intercepted_def)

lemma fetchIssuePage_served:
  assumes "servesIssues up sid xs"
  shows "fetchIssuePage up sid startAt pageSize w =
           (Inr \<lparr> resp_issues = Some (take (nat pageSize) (drop (nat startAt) xs)),
                  resp_total = Some (int (length xs)) \<rparr>,
            snd (getSprintIssues up sid startAt pageSize w))"
proof -
  from assms have "getSprintIssues up sid startAt pageSize w =
      (Inr \<lparr> resp_issues = Some (take (nat pageSize) (drop (nat startAt) xs)),
             resp_total = Some (int (length xs)) \<rparr>,
       snd (getSprintIssues up sid startAt pageSize w))"
    unfolding servesIssues_def by (metis prod.collapse)
  then show ?thesis
    unfolding fetchIssuePage_def
    by (intro retry_success intercepted_success) (simp_all add: maxAttemptsOf_def noOptions_def)
qed

lemma page_step:
  assumes s: "servesIssues up sid xs"
  shows "getSprintTicketsPaginated up sid 50 (50 * int k) (take (50 * k) xs) w =
           (if 50 * int (Suc k) < int (length xs)
            then getSprintTicketsPaginated up sid 50 (50 * int (Suc k)) (take (50 * Suc k) xs)
                   (snd (getSprintIssues up sid (50 * int k) 50 w))
            else Some (Inr (take (50 * Suc k) xs),
                       snd (getSprintIssues up sid (50 * int k) 50 w)))"
proof -
  have acc: "take (50 * k) xs @ take 50 (drop (50 * k) xs) = take (50 * Suc k) xs"
    by (simp add: take_add[symmetric] add.commute)
  have off: "50 * int k + 50 = 50 * int (Suc k)" by simp
  have n: "nat (50 * int k) = 50 * k" by simp
  show ?thesis
    by (subst getSprintTicketsPaginated.simps)
       (simp only: fetchIssuePage_served[OF s] prod.case sum.case Let_def
          IssuesResponse.simps option.case acc off n nat_numeral)
qed

lemma pages_from:
  assumes s: "servesIssues up sid xs"
    and P: "P = max 1 ((length xs + 49) div 50)"
    and k: "k < P" and d: "d = P - k"
  shows "getSprintTicketsPaginated up sid 50 (50 * int k) (take (50 * k) xs) w =
           Some (Inr xs, fetchedPages up sid (map (\<lambda>j. 50 * int j) [k..<P]) w)"
  using k d
proof (induction d arbitrary: k w)
  case 0
  then show ?case by simp
next
  case (Suc d)
  let ?w1 = "snd (getSprintIssues up sid (50 * int k) 50 w)"
  show ?case
  proof (cases "50 * int (Suc k) < int (length xs)")
    case True
    then have k1: "Suc k < P" using P by simp
    have up: "[k..<P] = k # [Suc k..<P]" using Suc.prems(1) by (simp add: upt_conv_Cons)
    from Suc.prems k1 have "d = P - Suc k" by simp
    from Suc.IH[OF k1 this, of ?w1] True show ?thesis
      by (subst page_step[OF s]) (simp add: up fetchedPages_def)
  next
    case False
    then have full: "take (50 * Suc k) xs = xs" by simp
    from False Suc.prems(1) have "P = Suc k" using P by simp
    then have up: "[k..<P] = [k]" by simp
    from False show ?thesis
      by (subst page_step[OF s]) (simp add: up fetchedPages_def full)
  qed
qed

lemma pages_all:
  assumes "servesIssues up sid xs"
  shows "getSprintTicketsPaginated up sid 50 0 [] w =
           Some (Inr xs, fetchedPages up sid (pageOffsets (length xs)) w)"
  using pages_from[OF assms refl, of 0 _ w] by (simp add: pageOffsets_def)

lemma getFullKey_cache_get [simp]:
  "getFullKey (snd (cache_get c t k)) k' = getFullKey c k'"
  by (simp add: cache_get_def Let_def getFullKey_def split: option.splits)

lemma cache_get_miss_absent:
  assumes "fst (cache_get c t k) = None"
  shows "map_of (entries (snd (cache_get c t k))) (getFullKey c k) = None"
  using assms
  by (auto simp: cache_get_def Let_def delete_conv' split: option.splits if_splits)

lemma cache_get_absent:
  "map_of (entries c) (getFullKey c k) = None \<Longrightarrow> fst (cache_get c t k) = None"
  by (simp add: cache_get_def Let_def)

lemma miss_persists:
  assumes "fst (cache_get c t k) = None"
  shows "fst (cache_get (snd (cache_get c t k)) t' k) = None"
  by (rule cache_get_absent) (simp add: cache_get_miss_absent[OF assms])

lemma paginated_failure:
  assumes "fetchIssuePage up sid startAt pageSize w = (Inl e, w')"
  shows "getSprintTicketsPaginated up sid pageSize startAt acc w = Some (Inl e, w')"
  using assms by (subst getSprintTicketsPaginated.simps) simp

lemma getSprintTickets_miss:
  assumes "fst (cache_get c (clock up w) (CacheKeys_sprintIssues sid)) = None"
  shows "getSprintTickets up sid c w =
           (case getSprintTicketsPaginated up sid 50 0 [] w of
              None \<Rightarrow> None
            | Some (Inl e, w') \<Rightarrow>
                Some (Inl e, snd (cache_get c (clock up w) (CacheKeys_sprintIssues sid)), w')
            | Some (Inr allIssues, w') \<Rightarrow>
                Some (Inr allIssues,
                      cache_set (snd (cache_get c (clock up w) (CacheKeys_sprintIssues sid)))
                        (clock up w') (CacheKeys_sprintIssues sid) (CachedIssues allIssues)
                        (Some 300),
                      w'))"
  using assms
  by (cases "cache_get c (clock up w) (CacheKeys_sprintIssues sid)")
     (simp add: getSprintTickets_def Let_def
        cong: option.case_cong prod.case_cong sum.case_cong)


text \<open>
  C5. On a miss of the store, \<open>getSprintTickets\<close> requests pages of 50 issues one after the
  other, each offset 50 beyond the last, as long as the offset is below the total that the
  server reports. From a server that holds the issues \<open>xs\<close> it makes exactly the requests at
  the offsets \<open>pageOffsets (length xs)\<close> (0, 50 and 100 for 120 issues), returns \<open>xs\<close> and
  stores \<open>xs\<close> for 300 seconds. When the fetch of a page throws, whatever pages were
  accumulated, the error is the result, and the store is the one left by the first read: the
  key of the sprint holds nothing.
\<close>

theorem sprint_tickets_paginated:
  "(servesIssues up sid xs \<longrightarrow>
      getSprintTicketsPaginated up sid 50 0 [] w =
        Some (Inr xs, fetchedPages up sid (pageOffsets (length xs)) w))
   \<and> (servesIssues up sid xs
        \<and> fst (cache_get c (clock up w) (CacheKeys_sprintIssues sid)) = None \<longrightarrow>
      getSprintTickets up sid c w =
        Some (Inr xs,
              cache_set (snd (cache_get c (clock up w) (CacheKeys_sprintIssues sid)))
                (clock up (fetchedPages up sid (pageOffsets (length xs)) w))
                (CacheKeys_sprintIssues sid) (CachedIssues xs) (Some 300),
              fetchedPages up sid (pageOffsets (length xs)) w))
   \<and> (\<forall>startAt acc e w0 w'.
        fetchIssuePage up sid startAt 50 w0 = (Inl e, w') \<longrightarrow>
        getSprintTicketsPaginated up sid 50 startAt acc w0 = Some (Inl e, w'))
   \<and> (\<forall>e c' w'.
        fst (cache_get c (clock up w) (CacheKeys_sprintIssues sid)) = None
        \<and> getSprintTickets up sid c w = Some (Inl e, c', w') \<longrightarrow>
        c' = snd (cache_get c (clock up w) (CacheKeys_sprintIssues sid))
        \<and> entries c' = entries (snd (cache_get c (clock up w) (CacheKeys_sprintIssues sid)))
        \<and> (\<forall>t. fst (cache_get c' t (CacheKeys_sprintIssues sid)) = None))"
proof (intro conjI impI allI)
  assume s: "servesIssues up sid xs"
  show "getSprintTicketsPaginated up sid 50 0 [] w =
          Some (Inr xs, fetchedPages up sid (pageOffsets (length xs)) w)"
    by (rule pages_all[OF s])
next
  assume "servesIssues up sid xs
          \<and> fst (cache_get c (clock up w) (CacheKeys_sprintIssues sid)) = None"
  then have s: "servesIssues up sid xs"
    and miss: "fst (cache_get c (clock up w) (CacheKeys_sprintIssues sid)) = None"
    by simp_all
  show "getSprintTickets up sid c w =
          Some (Inr xs,
                cache_set (snd (cache_get c (clock up w) (CacheKeys_sprintIssues sid)))
                  (clock up (fetchedPages up sid (pageOffsets (length xs)) w))
                  (CacheKeys_sprintIssues sid) (CachedIssues xs) (Some 300),
                fetchedPages up sid (pageOffsets (length xs)) w)"
    by (simp add: getSprintTickets_miss[OF miss] pages_all[OF s])
next
  fix startAt acc e w0 w'
  assume "fetchIssuePage up sid startAt 50 w0 = (Inl e, w')"
  then show "getSprintTicketsPaginated up sid 50 startAt acc w0 = Some (Inl e, w')"
    by (rule paginated_failure)
next
  fix e c' w'
  assume "fst (cache_get c (clock up w) (CacheKeys_sprintIssues sid)) = None
          \<and> getSprintTickets up sid c w = Some (Inl e, c', w')"
  then have miss: "fst (cache_get c (clock up w) (CacheKeys_sprintIssues sid)) = None"
    and f: "getSprintTickets up sid c w = Some (Inl e, c', w')"
    by simp_all
  from f show c': "c' = snd (cache_get c (clock up w) (CacheKeys_sprintIssues sid))"
    unfolding getSprintTickets_miss[OF miss]
    by (auto split: option.splits sum.splits prod.splits)
  then show "entries c' = entries (snd (cache_get c (clock up w) (CacheKeys_sprintIssues sid)))"
    by simp
  fix t
  show "fst (cache_get c' t (CacheKeys_sprintIssues sid)) = None"
    unfolding c' by (rule miss_persists[OF miss])
qed

lemma example_serves: "servesIssues (exampleUpstream xs) sid xs"
  by (simp add: servesIssues_def exampleUpstream_def)

lemma example_issues_miss:
  "fst (cache_get sprintCache (clock (exampleUpstream issues120) exampleWorld)
          (CacheKeys_sprintIssues 7)) = None"
  by code_simp

lemma example_issues_miss_failing:
  "fst (cache_get sprintCache (clock (failingFrom 100 issues120) exampleWorld)
          (CacheKeys_sprintIssues 7)) = None"
  by code_simp

lemma example_pages:
  "length issues120 = 120"
  "pageOffsets (length issues120) = [0, 50, 100]"
  "fetchedPages (exampleUpstream issues120) 7 [0, 50, 100] exampleWorld =
     \<lparr> world_time = exampleNow + 300,
       requests = [''issues from 0'', ''issues from 50'', ''issues from 100''] \<rparr>"
  by code_simp+

lemma example_failing:
  "getSprintTickets (failingFrom 100 issues120) 7 sprintCache exampleWorld =
     Some (Inl (ThrownBase (fromAxiosError notFound (exampleNow + 300))),
           sprintCache\<lparr> missCount := 1 \<rparr>,
           \<lparr> world_time = exampleNow + 300,
             requests = [''issues from 0'', ''issues from 50'', ''issues from 100''] \<rparr>)"
  by code_simp

theorem sprint_tickets_paginated_witness:
  "servesIssues (exampleUpstream issues120) 7 issues120
   \<and> length issues120 = 120
   \<and> (\<exists>c'. getSprintTickets (exampleUpstream issues120) 7 sprintCache exampleWorld =
             Some (Inr issues120, c',
                   \<lparr> world_time = exampleNow + 300,
                     requests = [''issues from 0'', ''issues from 50'', ''issues from 100''] \<rparr>)
           \<and> map (\<lambda>kv. (fst kv, data (snd kv), expiry (snd kv))) (entries c') =
               [(''sprint:sprint-issues:7'', CachedIssues issues120, exampleNow + 300300)])
   \<and> getSprintTickets (failingFrom 100 issues120) 7 sprintCache exampleWorld =
       Some (Inl (ThrownBase (fromAxiosError notFound (exampleNow + 300))),
             sprintCache\<lparr> missCount := 1 \<rparr>,
             \<lparr> world_time = exampleNow + 300,
               requests = [''issues from 0'', ''issues from 50'', ''issues from 100''] \<rparr>)
   \<and> entries (sprintCache\<lparr> missCount := 1 \<rparr>) = []
   \<and> fst (cache_get (sprintCache\<lparr> missCount := 1 \<rparr>) (exampleNow + 301)
            (CacheKeys_sprintIssues 7)) = None"
proof -
  note good = sprint_tickets_paginated[where xs = issues120, THEN conjunct2, THEN conjunct1,
      rule_format, OF conjI[OF example_serves example_issues_miss]]
  note bad = sprint_tickets_paginated[where xs = issues120, THEN conjunct2, THEN conjunct2,
      THEN conjunct2, rule_format, OF conjI[OF example_issues_miss_failing example_failing]]
  have k: "CacheKeys_sprintIssues 7 = ''sprint-issues:7''" by code_simp
  have e: "map (\<lambda>kv. (fst kv, data (snd kv), expiry (snd kv)))
             (entries (cache_set (snd (cache_get sprintCache
                  (clock (exampleUpstream issues120) exampleWorld) (CacheKeys_sprintIssues 7)))
                (clock (exampleUpstream issues120)
                   \<lparr> world_time = exampleNow + 300,
                     requests = [''issues from 0'', ''issues from 50'', ''issues from 100''] \<rparr>)
                (CacheKeys_sprintIssues 7) (CachedIssues xs) (Some 300))) =
           [(''sprint:sprint-issues:7'', CachedIssues xs, exampleNow + 300300)]" for xs
    by (simp add: k cache_set_def cache_get_def Let_def sprintCache_def getFullKey_def
          orNull_def exampleUpstream_def)
  from good e bad example_pages example_serves example_failing show ?thesis
    by (auto simp: sprintCache_def)
qed

section \<open>The active sprint of a board\<close>













section \<open>The catch of the tool handler\<close>

lemma tool_handle:
  "name' \<noteq> [] \<Longrightarrow> tool (handle pf now err name') = name'"
  by (cases err) (simp_all add: handle_def toResponse_def)

lemma error_handle:
  "error (handle pf now err name') =
     (case err of
        ThrownBase b \<Rightarrow> message b
      | ThrownAxios a \<Rightarrow> message (fromAxiosError a now)
      | ThrownError nm msg \<Rightarrow> msg
      | ThrownOther \<Rightarrow> ''An unknown error occurred'')"
  by (cases err) (simp_all add: handle_def toResponse_def)

lemma status_handle:
  "error_status (handle pf now err name') =
     (case err of
        ThrownBase b \<Rightarrow> statusCode b
      | ThrownAxios a \<Rightarrow> response_status a
      | _ \<Rightarrow> Some 500)"
  by (cases err) (simp_all add: handle_def toResponse_def fromAxiosError_def Let_def split: prod.splits)


text \<open>
  For the empty tool name, \<open>toResponse\<close> reports the tool \<open>unknown\<close>; the dispatcher of index.ts
  calls \<open>handleJiraTool\<close> only with names that start with \<open>jira_\<close>.
\<close>

lemma handle_empty_tool_name: "tool (handle pf now (ThrownBase b) []) = ''unknown''"
  by (simp add: handle_def toResponse_def)

lemma toolBody_unknown:
  assumes "name' \<notin> set [''jira_create_issue'', ''jira_search_issues'', ''jira_update_issue'',
             ''jira_get_sprint_issues'', ''jira_daily_standup_report'',
             ''jira_generate_standup_pdf'']"
  shows "toolBody pf isEmail up name' args c w =
           Some (Inl (ThrownBase (unknownTool name' (clock up w))), c, w)"
  using assms by (simp add: toolBody_def)

lemma toolBody_standup_invalid:
  assumes "validateDailyStandupReport args = Inl e"
  shows "toolBody pf isEmail up ''jira_daily_standup_report'' args c w = Some (Inl e, c, w)"
  using assms by (simp add: toolBody_def dailyStandupReport_def)

text \<open>
  C9. \<open>handleJiraTool\<close> returns a response or does not return; it never throws. For every
  tool name (not the empty string) and every argument value, a body that returns a response
  gives that response, and whatever a body throws (a validation error, an upstream error, an
  error of the report builder, any other value) becomes a response holding the result of
  \<open>ErrorHandler.handle\<close>: the message of the error, the name of the tool, the status of the
  error (500 for an error that carries none) and, for an error of the server's own classes,
  its code and timestamp as details.
\<close>

theorem handleJiraTool_catches_all:
  assumes "name' \<noteq> []"
  shows "(toolBody pf isEmail up name' args c w = None \<longrightarrow>
            handleJiraTool pf isEmail up name' args c w = None)
       \<and> (\<forall>response c' w'.
            toolBody pf isEmail up name' args c w = Some (Inr response, c', w') \<longrightarrow>
            handleJiraTool pf isEmail up name' args c w = Some (response, c', w'))
       \<and> (\<forall>err c' w'.
            toolBody pf isEmail up name' args c w = Some (Inl err, c', w') \<longrightarrow>
            handleJiraTool pf isEmail up name' args c w =
              Some (textResponse (ErrorJSON (handle pf (clock up w') err name')), c', w')
            \<and> tool (handle pf (clock up w') err name') = name'
            \<and> error (handle pf (clock up w') err name') =
                (case err of
                   ThrownBase b \<Rightarrow> message b
                 | ThrownAxios a \<Rightarrow> message (fromAxiosError a (clock up w'))
                 | ThrownError nm msg \<Rightarrow> msg
                 | ThrownOther \<Rightarrow> ''An unknown error occurred'')
            \<and> error_status (handle pf (clock up w') err name') =
                (case err of
                   ThrownBase b \<Rightarrow> statusCode b
                 | ThrownAxios a \<Rightarrow> response_status a
                 | _ \<Rightarrow> Some 500)
            \<and> (\<forall>b. err = ThrownBase b \<longrightarrow>
                  details (handle pf (clock up w') err name') =
                    Some (CodeDetails (code b) (timestamp b)
                            (if errorClass b = ValidationError then Some (validationErrors b)
                             else None))))"
  using assms
  by (auto simp: handleJiraTool_def catchAll_def tool_handle error_handle status_handle)
     (simp_all add: handle_def toResponse_def)



lemma example_unknown_tool:
  "toolBody examplePlatform (\<lambda>s. True) (exampleUpstream []) ''jira_bogus'' (standupCall [])
     sprintCache exampleWorld =
   Some (Inl (ThrownBase (unknownTool ''jira_bogus'' exampleNow)), sprintCache, exampleWorld)"
  by code_simp

lemma example_error_responses:
  "map_option fst
     (handleJiraTool examplePlatform (\<lambda>s. True) (exampleUpstream [])
        ''jira_daily_standup_report'' (JObject [(''boardId'', JNumber (- 1))]) sprintCache
        exampleWorld) =
   Some (textResponse (ErrorJSON
     \<lparr> error = ''Input validation failed'', tool = ''jira_daily_standup_report'',
       error_status = Some 500,
       details = Some (TextDetails ''An unexpected error occurred'') \<rparr>))"
  "map_option fst
     (handleJiraTool examplePlatform (\<lambda>s. True) (failingFrom 0 [])
        ''jira_daily_standup_report'' (standupCall []) sprintCache exampleWorld) =
   Some (textResponse (ErrorJSON
     \<lparr> error = ''Resource not found'', tool = ''jira_daily_standup_report'',
       error_status = Some 404,
       details = Some (CodeDetails API_NOT_FOUND (exampleNow + 200) None) \<rparr>))"
  "map_option fst
     (handleJiraTool examplePlatform (\<lambda>s. True) emptyBoard
        ''jira_generate_standup_pdf'' (standupCall []) sprintCache exampleWorld) =
   Some (textResponse (ErrorJSON
     \<lparr> error = ''Failed to generate report data'', tool = ''jira_generate_standup_pdf'',
       error_status = Some 500,
       details = Some (CodeDetails INTERNAL_ERROR (exampleNow + 100) None) \<rparr>))"
  by code_simp+

theorem handleJiraTool_catches_all_witness:
  "handleJiraTool examplePlatform (\<lambda>s. True) (exampleUpstream []) ''jira_bogus''
     (standupCall []) sprintCache exampleWorld =
   Some (textResponse (ErrorJSON
           \<lparr> error = ''Unknown Jira tool: jira_bogus'', tool = ''jira_bogus'',
             error_status = Some 400,
             details = Some (CodeDetails UNKNOWN_TOOL exampleNow None) \<rparr>),
         sprintCache, exampleWorld)
   \<and> map_option fst
       (handleJiraTool examplePlatform (\<lambda>s. True) (exampleUpstream [])
          ''jira_daily_standup_report'' (JObject [(''boardId'', JNumber (- 1))]) sprintCache
          exampleWorld) =
     Some (textResponse (ErrorJSON
       \<lparr> error = ''Input validation failed'', tool = ''jira_daily_standup_report'',
         error_status = Some 500,
         details = Some (TextDetails ''An unexpected error occurred'') \<rparr>))
   \<and> map_option fst
       (handleJiraTool examplePlatform (\<lambda>s. True) (failingFrom 0 [])
          ''jira_daily_standup_report'' (standupCall []) sprintCache exampleWorld) =
     Some (textResponse (ErrorJSON
       \<lparr> error = ''Resource not found'', tool = ''jira_daily_standup_report'',
         error_status = Some 404,
         details = Some (CodeDetails API_NOT_FOUND (exampleNow + 200) None) \<rparr>))"
proof -
  have n: "''jira_bogus'' \<noteq> []" by simp
  note t = handleJiraTool_catches_all[OF n, THEN conjunct2, THEN conjunct2, rule_format,
      OF example_unknown_tool]
  have h: "handle examplePlatform (clock (exampleUpstream []) exampleWorld)
             (ThrownBase (unknownTool ''jira_bogus'' exampleNow)) ''jira_bogus'' =
           \<lparr> error = ''Unknown Jira tool: jira_bogus'', tool = ''jira_bogus'',
             error_status = Some 400,
             details = Some (CodeDetails UNKNOWN_TOOL exampleNow None) \<rparr>"
    by code_simp
  from t[THEN conjunct1] example_error_responses show ?thesis
    unfolding h by simp
qed

end
